theory Spec2Isabelle
  imports Main "HOL-Library.Sublist"
begin

section \<open>The S3 glob reader data connector\<close>

text \<open>
  A shallow embedding of \<^verbatim>\<open>S3GlobReaderDataConnector\<close>
  (\<^verbatim>\<open>great_expectations/execution_environment/data_connector/s3_data_connector.py\<close>).

  Python dictionaries whose keys are fixed by the code are records with one optional
  field per key (\<open>None\<close>: the key is absent); dictionaries with arbitrary keys are maps.
  Everything the module only calls is a parameter of the functions that call it:
  \<^item> \<open>re_match\<close>, the function \<^verbatim>\<open>re.match\<close>;
  \<^item> \<open>list_objects_v2\<close>, the listing call of the boto3 client;
  \<^item> \<open>now\<close>, the formatted reading of the clock;
  \<^item> \<open>process_batch_definition\<close>, the method of the execution engine.
\<close>

subsection \<open>Data\<close>

text \<open>
  A reader-options dictionary. The values are opaque to the connector; they are strings here.
\<close>

type_synonym options = "string \<rightharpoonup> string"

text \<open>
  The reader-options dictionary of the connector is one mutable object that the connector and
  the batch kwargs it hands out refer to. Such objects live in a store, and the records hold
  their addresses.
\<close>

type_synonym addr = nat
type_synonym heap = "addr \<Rightarrow> options"

text \<open>One entry of \<^verbatim>\<open>assets\<close>: the configuration dictionary of an asset.\<close>

record asset_config =
  cfg_prefix :: "string option"
  cfg_delimiter :: "string option"
  cfg_regex_filter :: "string option"
  cfg_partition_regex :: "string option"
  cfg_match_group_id :: "int option"
  cfg_directory_assets :: "bool option"
  cfg_max_keys :: "int option"
  cfg_reader_method :: "string option"
  cfg_reader_options :: "options option"

text \<open>
  The per-asset entry of \<^verbatim>\<open>self._iterators\<close>: a dictionary whose only key is
  \<^verbatim>\<open>"continuation_token"\<close>.
\<close>

record iterator_dict =
  continuation_token :: "string option"

text \<open>
  The batch kwargs dictionary. \<open>bk_reader_options\<close> is the address of the dictionary stored
  under \<^verbatim>\<open>"reader_options"\<close>.
\<close>

record batch_kwargs =
  bk_s3 :: "string option"
  bk_reader_options :: "addr option"
  bk_reader_method :: "string option"
  bk_limit :: "int option"

text \<open>
  The attributes of the connector that the modelled methods use; \<open>last_batch_kwargs\<close> is
  the attribute \<^verbatim>\<open>batch_kwargs\<close>.
\<close>

record connector =
  bucket :: string
  reader_method :: "string option"
  reader_options :: addr
  assets :: "string \<rightharpoonup> asset_config"
  delimiter :: string
  max_keys :: int
  iterators :: "string \<rightharpoonup> iterator_dict"
  last_batch_kwargs :: "batch_kwargs option"

text \<open>
  The keyword arguments of \<^verbatim>\<open>list_objects_v2\<close> and the part of its response that is
  read. A response always has \<^verbatim>\<open>IsTruncated\<close>, and every entry of its contents has a
  key and a size; the other keys may be absent. An item of \<^verbatim>\<open>CommonPrefixes\<close> is given
  by its \<^verbatim>\<open>Prefix\<close>.
\<close>

record query_options =
  Bucket :: string
  Delimiter :: string
  Prefix :: "string option"
  MaxKeys :: int
  ContinuationToken :: "string option"

record s3_object =
  Key :: string
  Size :: int

record list_response =
  CommonPrefixes :: "string list option"
  Contents :: "s3_object list option"
  IsTruncated :: bool
  NextContinuationToken :: "string option"

text \<open>The dictionary \<^verbatim>\<open>batch_parameters\<close> given to \<^verbatim>\<open>_build_batch_kwargs\<close>.\<close>

record batch_parameters =
  bp_data_asset_name :: "string option"
  bp_partition_id :: "string option"
  bp_reader_method :: "string option"
  bp_reader_options :: "options option"
  bp_limit :: "int option"

text \<open>
  The exceptions. The three \<^verbatim>\<open>BatchKwargsError\<close>s and the
  \<^verbatim>\<open>GreatExpectationsError\<close> carry what the code puts into them.
\<close>

datatype error =
    CommonPrefixesMissing asset_config "s3_object list option"
  | ContentsMissing asset_config "string list option"
  | UnknownAssetName string "string option" "options option" "int option"
  | NoNameProvided
  | NoAssetConfig string
  | UnableToIdentifyPartition string string
  | KeyError string
  | AttributeError
  | TypeError

text \<open>
  A match object: the text of group 0, group 1, ...; \<open>None\<close> for a group that took no part
  in the match. \<^verbatim>\<open>re.match\<close> returns \<^verbatim>\<open>None\<close> when the pattern does not match.
\<close>

type_synonym match = "string option list"
type_synonym regex_engine = "string \<Rightarrow> string \<Rightarrow> match option"

text \<open>
  \<^verbatim>\<open>re.match\<close> on the patterns without metacharacters: the pattern matches when the
  string starts with it, and there is no group but group 0.
\<close>

definition literal_match :: regex_engine where
  "literal_match pat s = (if prefix pat s then Some [Some pat] else None)"

text \<open>A regex engine given by a finite table of its results.\<close>

definition table_match :: "((string \<times> string) \<times> match) list \<Rightarrow> regex_engine" where
  "table_match tbl pat s = map_of tbl (pat, s)"

subsection \<open>The partitioner\<close>

text \<open>\<^verbatim>\<open>matches.group(i)\<close>: an \<^verbatim>\<open>IndexError\<close> (\<open>None\<close> here) outside the groups.\<close>

definition group :: "match \<Rightarrow> int \<Rightarrow> string option option" where
  "group m i = (if 0 \<le> i \<and> i < int (length m) then Some (m ! nat i) else None)"

text \<open>
  \<^verbatim>\<open>_partitioner\<close>. The result is \<open>None\<close> when Python returns \<^verbatim>\<open>None\<close> (the group
  exists and took no part in the match).
\<close>

definition partitioner :: "regex_engine \<Rightarrow> string \<Rightarrow> string \<Rightarrow> asset_config \<Rightarrow> string option" where
  "partitioner re_match now key asset_config =
    (case cfg_partition_regex asset_config of
       Some partition_regex \<Rightarrow>
         (let match_group_id = (case cfg_match_group_id asset_config of None \<Rightarrow> 1 | Some i \<Rightarrow> i) in
          case re_match partition_regex key of
            None \<Rightarrow> Some (now @ ''__unmatched'')
          | Some matches \<Rightarrow>
              (case group matches match_group_id of
                 Some g \<Rightarrow> g
               | None \<Rightarrow> Some (now @ ''__no_match_group'')))
     | None \<Rightarrow>
         (let pfx = (case cfg_prefix asset_config of None \<Rightarrow> [] | Some p \<Rightarrow> p) in
          if prefix pfx key then Some (drop (length pfx) key) else Some key))"

subsection \<open>Building the batch kwargs of a key\<close>

text \<open>\<^verbatim>\<open>d.update(other)\<close> on the dictionary at address \<open>a\<close>.\<close>

definition update_at :: "heap \<Rightarrow> addr \<Rightarrow> options \<Rightarrow> heap" where
  "update_at h a other = h(a := h a ++ other)"

text \<open>
  \<^verbatim>\<open>_build_batch_kwargs_from_key\<close>. The new dictionary stores
  \<^verbatim>\<open>self.reader_options\<close> itself under \<^verbatim>\<open>"reader_options"\<close>, so the two
  \<^verbatim>\<open>update\<close> calls write to the dictionary of the connector. \<^verbatim>\<open>S3BatchKwargs\<close>
  makes a dictionary of the same items.
\<close>

definition build_batch_kwargs_from_key ::
  "connector \<Rightarrow> heap \<Rightarrow> string \<Rightarrow> asset_config \<Rightarrow> string option \<Rightarrow> options option \<Rightarrow> int option
    \<Rightarrow> batch_kwargs \<times> heap" where
  "build_batch_kwargs_from_key self h key asset_config rm ro lim =
    (let b0 = \<lparr>bk_s3 = Some (''s3a://'' @ bucket self @ ''/'' @ key),
               bk_reader_options = Some (reader_options self),
               bk_reader_method = None, bk_limit = None\<rparr>;
         h1 = (case cfg_reader_options asset_config of
                 Some m \<Rightarrow> if m \<noteq> Map.empty then update_at h (reader_options self) m else h
               | None \<Rightarrow> h);
         h2 = (case ro of Some m \<Rightarrow> update_at h1 (reader_options self) m | None \<Rightarrow> h1);
         b1 = (case reader_method self of Some m \<Rightarrow> b0\<lparr>bk_reader_method := Some m\<rparr> | None \<Rightarrow> b0);
         b2 = (case cfg_reader_method asset_config of
                 Some m \<Rightarrow> if m \<noteq> [] then b1\<lparr>bk_reader_method := Some m\<rparr> else b1
               | None \<Rightarrow> b1);
         b3 = (case rm of Some m \<Rightarrow> b2\<lparr>bk_reader_method := Some m\<rparr> | None \<Rightarrow> b2);
         b4 = (case lim of Some l \<Rightarrow> if l \<noteq> 0 then b3\<lparr>bk_limit := Some l\<rparr> else b3 | None \<Rightarrow> b3)
     in (b4, h2))"

text \<open>
  The dictionary that a batch kwargs dictionary has under \<^verbatim>\<open>"reader_options"\<close>, as the
  store holds it.
\<close>

definition reader_options_of :: "heap \<Rightarrow> batch_kwargs \<Rightarrow> options" where
  "reader_options_of h b = (case bk_reader_options b of None \<Rightarrow> Map.empty | Some a \<Rightarrow> h a)"

subsection \<open>Listing the keys of an asset\<close>

text \<open>The query that \<^verbatim>\<open>_get_asset_options\<close> sends.\<close>

definition query_options_of :: "connector \<Rightarrow> asset_config \<Rightarrow> iterator_dict \<Rightarrow> query_options" where
  "query_options_of self asset_config it =
    \<lparr>Bucket = bucket self,
     Delimiter = (case cfg_delimiter asset_config of None \<Rightarrow> delimiter self | Some d \<Rightarrow> d),
     Prefix = cfg_prefix asset_config,
     MaxKeys = (case cfg_max_keys asset_config of None \<Rightarrow> max_keys self | Some n \<Rightarrow> n),
     ContinuationToken = continuation_token it\<rparr>"

text \<open>
  The keys of one response, before the regex filter: the common prefixes of a directory
  asset, else the keys of the entries of positive size; a \<^verbatim>\<open>BatchKwargsError\<close> when the
  response lacks the collection that the mode reads.
\<close>

definition response_keys :: "asset_config \<Rightarrow> list_response \<Rightarrow> error + string list" where
  "response_keys asset_config asset_options =
    (if cfg_directory_assets asset_config = Some True then
       (case CommonPrefixes asset_options of
          None \<Rightarrow> Inl (CommonPrefixesMissing asset_config (Contents asset_options))
        | Some items \<Rightarrow> Inr items)
     else
       (case Contents asset_options of
          None \<Rightarrow> Inl (ContentsMissing asset_config (CommonPrefixes asset_options))
        | Some items \<Rightarrow> Inr (map Key (filter (\<lambda>item. Size item > 0) items))))"

text \<open>The filter by \<^verbatim>\<open>regex_filter\<close>, whose default is \<^verbatim>\<open>".*"\<close>.\<close>

definition regex_filter_keys :: "regex_engine \<Rightarrow> asset_config \<Rightarrow> string list \<Rightarrow> string list" where
  "regex_filter_keys re_match asset_config keys =
    filter (\<lambda>x. re_match (case cfg_regex_filter asset_config of None \<Rightarrow> ''.*'' | Some r \<Rightarrow> r) x \<noteq> None) keys"

text \<open>
  \<^verbatim>\<open>_get_asset_options\<close> is a generator. Its recursive call only hands on what the inner
  generator yields, so the generator is, at any moment, at one of these places:
  \<^item> \<open>Request\<close>: about to send a query (at the start, and at the start of the recursive call);
  \<^item> \<open>Yielding keys asset_options\<close>: in the loop \<^verbatim>\<open>for key in keys: yield key\<close> with
    \<open>keys\<close> still to yield, \<open>asset_options\<close> being the response they come from;
  \<^item> \<open>Finished\<close>: returned;
  \<^item> \<open>Raised e\<close>: left by the exception \<open>e\<close>.
  The generator works on the iterator dictionary that its caller passed.
\<close>

datatype position = Request | Yielding "string list" list_response | Finished | Raised error

type_synonym generator = "position \<times> iterator_dict"

text \<open>
  One step of the generator: the query with the shape check and the filter, the yield of
  one key (the consumer runs after it), or what follows the loop.
\<close>

fun get_asset_options_step ::
  "regex_engine \<Rightarrow> (query_options \<Rightarrow> list_response) \<Rightarrow> connector \<Rightarrow> asset_config \<Rightarrow> generator
    \<Rightarrow> string option \<times> generator" where
  "get_asset_options_step re_match list_objects_v2 self asset_config (Request, it) =
    (let asset_options = list_objects_v2 (query_options_of self asset_config it) in
     case response_keys asset_config asset_options of
       Inl e \<Rightarrow> (None, (Raised e, it))
     | Inr keys \<Rightarrow> (None, (Yielding (regex_filter_keys re_match asset_config keys) asset_options, it)))"
| "get_asset_options_step re_match list_objects_v2 self asset_config (Yielding (key # keys) asset_options, it) =
    (Some key, (Yielding keys asset_options, it))"
| "get_asset_options_step re_match list_objects_v2 self asset_config (Yielding [] asset_options, it) =
    (if IsTruncated asset_options then
       (case NextContinuationToken asset_options of
          None \<Rightarrow> (None, (Raised (KeyError ''NextContinuationToken''), it))
        | Some t \<Rightarrow> (None, (Request, it\<lparr>continuation_token := Some t\<rparr>)))
     else (None, (Finished, it\<lparr>continuation_token := None\<rparr>)))"
| "get_asset_options_step re_match list_objects_v2 self asset_config (Finished, it) = (None, (Finished, it))"
| "get_asset_options_step re_match list_objects_v2 self asset_config (Raised e, it) = (None, (Raised e, it))"

text \<open>
  The loop \<^verbatim>\<open>for key in <generator>: <body>\<close>. The body works on the state \<open>s\<close> of
  the caller and may raise. The result is the state at the end, the exception that ended
  the loop (raised by the generator or by the body) if one did, and the generator as it
  is left. The store may answer every query with a truncated response, and the loop then
  never ends: the result is \<open>None\<close>.
\<close>

partial_function (option) for_key_in ::
  "(generator \<Rightarrow> string option \<times> generator) \<Rightarrow> (string \<Rightarrow> 's \<Rightarrow> error + 's) \<Rightarrow> generator \<Rightarrow> 's
    \<Rightarrow> ('s \<times> error option \<times> generator) option" where
  "for_key_in step body g s =
    (case fst g of
       Finished \<Rightarrow> Some (s, None, g)
     | Raised e \<Rightarrow> Some (s, Some e, g)
     | _ \<Rightarrow>
        (case step g of
           (None, g') \<Rightarrow> for_key_in step body g' s
         | (Some key, g') \<Rightarrow>
             (case body key s of
                Inl e \<Rightarrow> Some (s, Some e, g')
              | Inr s' \<Rightarrow> for_key_in step body g' s')))"

text \<open>
  \<^verbatim>\<open>_get_asset_options\<close> consumed to its end, as by \<^verbatim>\<open>list(...)\<close>: the keys
  yielded in the order of the yields, the exception that ended the listing if one did, and
  the generator with the iterator dictionary as it is then.
\<close>

definition get_asset_options ::
  "regex_engine \<Rightarrow> (query_options \<Rightarrow> list_response) \<Rightarrow> connector \<Rightarrow> asset_config \<Rightarrow> iterator_dict
    \<Rightarrow> (string list \<times> error option \<times> generator) option" where
  "get_asset_options re_match list_objects_v2 self asset_config it =
    for_key_in (get_asset_options_step re_match list_objects_v2 self asset_config)
      (\<lambda>key keys. Inr (keys @ [key])) (Request, it) []"

subsection \<open>The iterator of batch kwargs of an asset\<close>

text \<open>
  \<^verbatim>\<open>_build_asset_iterator\<close>, consumed to its end: the batch kwargs of every key that the
  listing yields, and the store afterwards. The argument \<open>rm\<close> (\<^verbatim>\<open>reader_method\<close>) is
  not handed on: the call passes \<^verbatim>\<open>reader_method=None\<close>.
\<close>

definition build_asset_iterator ::
  "regex_engine \<Rightarrow> (query_options \<Rightarrow> list_response) \<Rightarrow> connector \<Rightarrow> heap \<Rightarrow> asset_config
    \<Rightarrow> iterator_dict \<Rightarrow> string option \<Rightarrow> options option \<Rightarrow> int option
    \<Rightarrow> ((batch_kwargs list \<times> heap) \<times> error option \<times> generator) option" where
  "build_asset_iterator re_match list_objects_v2 self h asset_config it rm ro lim =
    for_key_in (get_asset_options_step re_match list_objects_v2 self asset_config)
      (\<lambda>key (bs, h).
         case build_batch_kwargs_from_key self h key asset_config None ro lim of
           (b, h') \<Rightarrow> Inr (bs @ [b], h'))
      (Request, it) ([], h)"

text \<open>
  \<^verbatim>\<open>_get_iterator\<close>, with the iterator it returns consumed to its end: the batch kwargs
  yielded and the exception that ended the iteration if one did, with the connector and the
  store afterwards.
\<close>

definition get_iterator ::
  "regex_engine \<Rightarrow> (query_options \<Rightarrow> list_response) \<Rightarrow> connector \<Rightarrow> heap
    \<Rightarrow> string \<Rightarrow> string option \<Rightarrow> options option \<Rightarrow> int option
    \<Rightarrow> ((error + batch_kwargs list \<times> error option) \<times> connector \<times> heap) option" where
  "get_iterator re_match list_objects_v2 self h data_asset_name rm ro lim =
    (case assets self data_asset_name of
       None \<Rightarrow> Some (Inl (UnknownAssetName data_asset_name rm ro lim), self, h)
     | Some asset_config \<Rightarrow>
         (let it = (case iterators self data_asset_name of
                      None \<Rightarrow> \<lparr>continuation_token = None\<rparr> | Some i \<Rightarrow> i) in
          case build_asset_iterator re_match list_objects_v2 self h asset_config it rm ro lim of
            None \<Rightarrow> None
          | Some ((bs, hf), raised, (p, itf)) \<Rightarrow>
              Some (Inr (bs, raised),
                    self\<lparr>iterators := (iterators self)(data_asset_name \<mapsto> itf)\<rparr>, hf)))"

subsection \<open>Building batch kwargs from batch parameters\<close>

text \<open>
  What \<^verbatim>\<open>_build_batch_kwargs\<close> returns: a batch kwargs dictionary, or, without a
  partition id, what the inherited \<^verbatim>\<open>yield_batch_kwargs\<close> returns. That method is not
  part of this module: the call is recorded with its arguments.
\<close>

datatype returned =
    BatchKwargs batch_kwargs
  | Yield_batch_kwargs string batch_parameters batch_kwargs

text \<open>
  The call \<^verbatim>\<open>yield_batch_kwargs(data_asset_name=..., **batch_parameters, **batch_kwargs)\<close>
  is a \<^verbatim>\<open>TypeError\<close> when the two dictionaries have a key in common.
\<close>

definition shared_keyword :: "batch_parameters \<Rightarrow> batch_kwargs \<Rightarrow> bool" where
  "shared_keyword batch_parameters batch_kwargs =
    ((bp_reader_method batch_parameters \<noteq> None \<and> bk_reader_method batch_kwargs \<noteq> None)
     \<or> (bp_reader_options batch_parameters \<noteq> None \<and> bk_reader_options batch_kwargs \<noteq> None)
     \<or> (bp_limit batch_parameters \<noteq> None \<and> bk_limit batch_kwargs \<noteq> None))"

text \<open>
  The body of the loop of \<^verbatim>\<open>_build_batch_kwargs\<close>. Its state is the number of keys seen
  so far (the clock is read once for every key, \<open>now i\<close> for key number \<open>i\<close>), the variable
  \<^verbatim>\<open>batch_kwargs\<close> (\<open>None\<close>: Python's \<^verbatim>\<open>None\<close>) and the store.
  \<^verbatim>\<open>batch_kwargs.get("limit")\<close> is an \<^verbatim>\<open>AttributeError\<close> on \<^verbatim>\<open>None\<close>.
\<close>

definition partition_body ::
  "regex_engine \<Rightarrow> (nat \<Rightarrow> string) \<Rightarrow> connector \<Rightarrow> asset_config \<Rightarrow> string \<Rightarrow> options option
    \<Rightarrow> string \<Rightarrow> nat \<times> batch_kwargs option \<times> heap \<Rightarrow> error + nat \<times> batch_kwargs option \<times> heap" where
  "partition_body re_match now self asset_config partition_id ro key s =
    (case s of (i, batch_kwargs, h) \<Rightarrow>
       if partitioner re_match (now i) key asset_config = Some partition_id then
         (case batch_kwargs of
            None \<Rightarrow> Inl AttributeError
          | Some b \<Rightarrow>
              (case build_batch_kwargs_from_key self h key asset_config None ro (bk_limit b) of
                 (b', h') \<Rightarrow> Inr (Suc i, Some b', h')))
       else Inr (Suc i, batch_kwargs, h))"

text \<open>The state of the loop after its body, unchanged when the body raises.\<close>

definition partition_step ::
  "regex_engine \<Rightarrow> (nat \<Rightarrow> string) \<Rightarrow> connector \<Rightarrow> asset_config \<Rightarrow> string \<Rightarrow> options option
    \<Rightarrow> string \<Rightarrow> nat \<times> batch_kwargs option \<times> heap \<Rightarrow> nat \<times> batch_kwargs option \<times> heap" where
  "partition_step re_match now self asset_config partition_id ro key s =
    (case partition_body re_match now self asset_config partition_id ro key s of
       Inl e \<Rightarrow> s
     | Inr s' \<Rightarrow> s')"

text \<open>
  The call of \<^verbatim>\<open>process_batch_definition\<close> in \<^verbatim>\<open>_build_batch_kwargs\<close>.
  \<open>process_batch_definition\<close> stands for the method of the execution engine; \<open>None\<close> is
  its result \<^verbatim>\<open>None\<close>. It is given the reader method and the reader options of the
  batch parameters, or those of the connector when they are absent or empty, and the limit.
\<close>

definition engine_batch_kwargs ::
  "(string option \<Rightarrow> options \<Rightarrow> int option \<Rightarrow> batch_kwargs option)
    \<Rightarrow> connector \<Rightarrow> heap \<Rightarrow> batch_parameters \<Rightarrow> batch_kwargs option" where
  "engine_batch_kwargs process_batch_definition self h batch_parameters =
    process_batch_definition
      (case bp_reader_method batch_parameters of
         Some m \<Rightarrow> if m \<noteq> [] then Some m else reader_method self
       | None \<Rightarrow> reader_method self)
      (case bp_reader_options batch_parameters of
         Some m \<Rightarrow> if m \<noteq> Map.empty then m else h (reader_options self)
       | None \<Rightarrow> h (reader_options self))
      (bp_limit batch_parameters)"

text \<open>
  \<^verbatim>\<open>_build_batch_kwargs\<close>. A partition id that is absent, \<^verbatim>\<open>None\<close> or empty is
  false in the test \<^verbatim>\<open>if partition_id\<close>. The iterator dictionary of the asset is the
  one the generator works on, so it is as the generator left it also when the call raises.
  Without a partition id, \<^verbatim>\<open>**batch_kwargs\<close> is a \<^verbatim>\<open>TypeError\<close> on \<^verbatim>\<open>None\<close> and
  on a key shared with the batch parameters.
\<close>

definition build_batch_kwargs ::
  "regex_engine \<Rightarrow> (query_options \<Rightarrow> list_response) \<Rightarrow> (nat \<Rightarrow> string)
    \<Rightarrow> (string option \<Rightarrow> options \<Rightarrow> int option \<Rightarrow> batch_kwargs option)
    \<Rightarrow> connector \<Rightarrow> heap \<Rightarrow> batch_parameters
    \<Rightarrow> ((error + returned) \<times> connector \<times> heap) option" where
  "build_batch_kwargs re_match list_objects_v2 now process_batch_definition self h batch_parameters =
    (case bp_data_asset_name batch_parameters of
       None \<Rightarrow> Some (Inl NoNameProvided, self, h)
     | Some data_asset_name \<Rightarrow>
        (let partition_id = (case bp_partition_id batch_parameters of None \<Rightarrow> [] | Some p \<Rightarrow> p);
             rest = batch_parameters\<lparr>bp_data_asset_name := None, bp_partition_id := None\<rparr>;
             batch_kwargs = engine_batch_kwargs process_batch_definition self h batch_parameters
         in
         if partition_id \<noteq> [] then
           (case assets self data_asset_name of
              None \<Rightarrow> Some (Inl (NoAssetConfig data_asset_name), self, h)
            | Some asset_config \<Rightarrow>
               (let it = (case iterators self data_asset_name of
                            None \<Rightarrow> \<lparr>continuation_token = None\<rparr> | Some i \<Rightarrow> i) in
                case for_key_in (get_asset_options_step re_match list_objects_v2 self asset_config)
                       (partition_body re_match now self asset_config partition_id
                          (bp_reader_options batch_parameters))
                       (Request, it) (0, batch_kwargs, h) of
                  None \<Rightarrow> None
                | Some ((n, batch_kwargs', h'), raised, (p, it')) \<Rightarrow>
                    (let self' = self\<lparr>iterators := (iterators self)(data_asset_name \<mapsto> it')\<rparr> in
                     case raised of
                       Some e \<Rightarrow> Some (Inl e, self', h')
                     | None \<Rightarrow>
                        (case batch_kwargs' of
                           None \<Rightarrow>
                             Some (Inl (UnableToIdentifyPartition partition_id data_asset_name), self', h')
                         | Some b \<Rightarrow>
                             Some (Inr (BatchKwargs b), self'\<lparr>last_batch_kwargs := Some b\<rparr>, h')))))
         else
           (case batch_kwargs of
              None \<Rightarrow> Some (Inl TypeError, self, h)
            | Some b \<Rightarrow>
                if shared_keyword rest b then Some (Inl TypeError, self, h)
                else Some (Inr (Yield_batch_kwargs data_asset_name rest b), self, h))))"

subsection \<open>The pages of a listing pass\<close>

text \<open>
  The surviving keys of a response: those of its keys that the regex filter keeps.
\<close>

definition page_keys :: "regex_engine \<Rightarrow> asset_config \<Rightarrow> list_response \<Rightarrow> string list" where
  "page_keys re_match asset_config asset_options =
    (case response_keys asset_config asset_options of
       Inl e \<Rightarrow> []
     | Inr keys \<Rightarrow> regex_filter_keys re_match asset_config keys)"

text \<open>A response has the collection that the mode of the asset reads.\<close>

definition well_shaped :: "asset_config \<Rightarrow> list_response \<Rightarrow> bool" where
  "well_shaped asset_config asset_options =
    (if cfg_directory_assets asset_config = Some True then CommonPrefixes asset_options \<noteq> None
     else Contents asset_options \<noteq> None)"

text \<open>
  \<open>pass_pages list_objects_v2 self asset_config it ps\<close>: the responses \<open>ps\<close> are what the
  store answers in one listing pass that starts with the iterator dictionary \<open>it\<close>. The
  first is the answer to the query made from \<open>it\<close>; every response but the last is
  truncated and has a next token, and the response after it is the answer to the query
  with that token; the last response is not truncated.
\<close>

fun pass_pages ::
  "(query_options \<Rightarrow> list_response) \<Rightarrow> connector \<Rightarrow> asset_config \<Rightarrow> iterator_dict
    \<Rightarrow> list_response list \<Rightarrow> bool" where
  "pass_pages list_objects_v2 self asset_config it [] = False"
| "pass_pages list_objects_v2 self asset_config it (p # ps) =
    (list_objects_v2 (query_options_of self asset_config it) = p \<and>
     (if ps = [] then \<not> IsTruncated p
      else IsTruncated p \<and>
        (case NextContinuationToken p of
           None \<Rightarrow> False
         | Some t \<Rightarrow> pass_pages list_objects_v2 self asset_config (it\<lparr>continuation_token := Some t\<rparr>) ps)))"

subsection \<open>Concrete configurations\<close>

text \<open>An asset configuration without any key.\<close>

definition no_config :: asset_config where
  "no_config = \<lparr>cfg_prefix = None, cfg_delimiter = None, cfg_regex_filter = None,
     cfg_partition_regex = None, cfg_match_group_id = None, cfg_directory_assets = None,
     cfg_max_keys = None, cfg_reader_method = None, cfg_reader_options = None\<rparr>"

text \<open>
  What \<^verbatim>\<open>re.match\<close> returns for the patterns \<^verbatim>\<open>.*\<close> and \<^verbatim>\<open>([0-9]+)/\<close> on four
  keys.
\<close>

definition year_match :: regex_engine where
  "year_match = table_match
     [((''.*'', ''2020/a.csv''), [Some ''2020/a.csv'']),
      ((''.*'', ''2020/b.csv''), [Some ''2020/b.csv'']),
      ((''.*'', ''2021/c.csv''), [Some ''2021/c.csv'']),
      ((''.*'', ''logs/x.csv''), [Some ''logs/x.csv'']),
      ((''([0-9]+)/'', ''2020/a.csv''), [Some ''2020/'', Some ''2020'']),
      ((''([0-9]+)/'', ''2020/b.csv''), [Some ''2020/'', Some ''2020'']),
      ((''([0-9]+)/'', ''2021/c.csv''), [Some ''2021/'', Some ''2021''])]"

text \<open>
  What \<^verbatim>\<open>re.match\<close> returns for the pattern \<^verbatim>\<open>(a)|(b)\<close> on the key \<^verbatim>\<open>b\<close>: the
  match has the groups 0, 1 and 2, and group 1 took no part in it.
\<close>

definition alternative_match :: regex_engine where
  "alternative_match = table_match [((''(a)|(b)'', ''b''), [Some ''b'', None, Some ''b''])]"

definition alternative_config :: asset_config where
  "alternative_config = no_config\<lparr>cfg_partition_regex := Some ''(a)|(b)''\<rparr>"

text \<open>
  A connector whose reader options are \<^verbatim>\<open>{"sep": ","}\<close>, with an asset whose reader
  options are \<^verbatim>\<open>{"sep": "~"}\<close> and an asset without reader options. The empty
  \<^verbatim>\<open>regex_filter\<close> matches every key.
\<close>

definition tilde_config :: asset_config where
  "tilde_config = no_config\<lparr>cfg_regex_filter := Some [], cfg_reader_options := Some [''sep'' \<mapsto> ''~'']\<rparr>"

definition plain_config :: asset_config where
  "plain_config = no_config\<lparr>cfg_regex_filter := Some []\<rparr>"

definition comma_connector :: connector where
  "comma_connector = \<lparr>bucket = ''b'', reader_method = None, reader_options = 0,
     assets = [''access_logs'' \<mapsto> tilde_config, ''other'' \<mapsto> plain_config],
     delimiter = ''/'', max_keys = 1000, iterators = Map.empty, last_batch_kwargs = None\<rparr>"

definition comma_heap :: heap where
  "comma_heap = (\<lambda>a. Map.empty)(0 := [''sep'' \<mapsto> '',''])"

text \<open>
  A store with two pages: the query without a token is answered by a truncated page with
  the keys \<^verbatim>\<open>a\<close> and \<^verbatim>\<open>b\<close> and the next token \<^verbatim>\<open>t1\<close>, the query with the token
  \<^verbatim>\<open>t1\<close> by a page with the key \<^verbatim>\<open>c\<close> that is not truncated.
\<close>

definition first_page :: list_response where
  "first_page = \<lparr>CommonPrefixes = None,
     Contents = Some [\<lparr>Key = ''a'', Size = 1\<rparr>, \<lparr>Key = ''b'', Size = 1\<rparr>],
     IsTruncated = True, NextContinuationToken = Some ''t1''\<rparr>"

definition second_page :: list_response where
  "second_page = \<lparr>CommonPrefixes = None, Contents = Some [\<lparr>Key = ''c'', Size = 1\<rparr>],
     IsTruncated = False, NextContinuationToken = None\<rparr>"

definition two_page_store :: "query_options \<Rightarrow> list_response" where
  "two_page_store q = (if ContinuationToken q = Some ''t1'' then second_page else first_page)"

definition no_token :: iterator_dict where
  "no_token = \<lparr>continuation_token = None\<rparr>"

text \<open>
  A store with the common prefixes \<^verbatim>\<open>x/\<close> and \<^verbatim>\<open>y/\<close> and without contents, a store
  whose response has neither, and directory assets with the regex filters \<^verbatim>\<open>y\<close> and
  the empty one.
\<close>

definition prefixes_page :: list_response where
  "prefixes_page = \<lparr>CommonPrefixes = Some [''x/'', ''y/''], Contents = None,
     IsTruncated = False, NextContinuationToken = None\<rparr>"

definition bare_page :: list_response where
  "bare_page = \<lparr>CommonPrefixes = None, Contents = None,
     IsTruncated = False, NextContinuationToken = None\<rparr>"

definition directory_config :: asset_config where
  "directory_config = no_config\<lparr>cfg_regex_filter := Some [], cfg_directory_assets := Some True\<rparr>"

definition y_directory_config :: asset_config where
  "y_directory_config = no_config\<lparr>cfg_regex_filter := Some ''y'', cfg_directory_assets := Some True\<rparr>"

text \<open>A store with an entry of size 0 and an entry of size 10.\<close>

definition sizes_page :: list_response where
  "sizes_page = \<lparr>CommonPrefixes = None,
     Contents = Some [\<lparr>Key = ''a'', Size = 0\<rparr>, \<lparr>Key = ''b'', Size = 10\<rparr>],
     IsTruncated = False, NextContinuationToken = None\<rparr>"

text \<open>
  A connector with the reader method \<^verbatim>\<open>parquet\<close> and the asset \<^verbatim>\<open>logs\<close>, whose
  partition regex is \<^verbatim>\<open>([0-9]+)/\<close>; a store whose only page has three keys; an
  execution engine that returns a dictionary with the reader method and the limit it is
  given; a clock.
\<close>

definition year_config :: asset_config where
  "year_config = no_config\<lparr>cfg_partition_regex := Some ''([0-9]+)/''\<rparr>"

definition year_connector :: connector where
  "year_connector = \<lparr>bucket = ''b'', reader_method = Some ''parquet'', reader_options = 0,
     assets = [''logs'' \<mapsto> year_config],
     delimiter = ''/'', max_keys = 1000, iterators = Map.empty, last_batch_kwargs = None\<rparr>"

definition year_page :: list_response where
  "year_page = \<lparr>CommonPrefixes = None,
     Contents = Some [\<lparr>Key = ''2020/a.csv'', Size = 5\<rparr>, \<lparr>Key = ''2020/b.csv'', Size = 7\<rparr>,
                      \<lparr>Key = ''2021/c.csv'', Size = 9\<rparr>],
     IsTruncated = False, NextContinuationToken = None\<rparr>"

definition plain_engine :: "string option \<Rightarrow> options \<Rightarrow> int option \<Rightarrow> batch_kwargs option" where
  "plain_engine rm ro lim =
    Some \<lparr>bk_s3 = None, bk_reader_options = None, bk_reader_method = rm, bk_limit = lim\<rparr>"

definition clock :: "nat \<Rightarrow> string" where
  "clock i = ''20201103T000000.00000'' @ [''0123456789'' ! (i mod 10)] @ ''Z''"

definition year_request :: "string \<Rightarrow> batch_parameters" where
  "year_request partition_id = \<lparr>bp_data_asset_name = Some ''logs'', bp_partition_id = Some partition_id,
     bp_reader_method = Some ''csv'', bp_reader_options = None, bp_limit = None\<rparr>"

section \<open>Properties\<close>

subsection \<open>The partitioner\<close>

text \<open>
  C1, as stated, fails on the code: a group that exists and took no part in the match has
  no text, and the partitioner returns \<^verbatim>\<open>None\<close>. The pattern \<^verbatim>\<open>(a)|(b)\<close> matches
  the key \<^verbatim>\<open>b\<close>, group 1 is one of its groups, and the partition id is \<^verbatim>\<open>None\<close>.
\<close>

theorem group_without_text:
  "cfg_partition_regex alternative_config = Some ''(a)|(b)''
   \<and> cfg_match_group_id alternative_config = None
   \<and> alternative_match ''(a)|(b)'' ''b'' = Some [Some ''b'', None, Some ''b'']
   \<and> (1::int) < int (length [Some ''b'', None, Some ''b''])
   \<and> partitioner alternative_match ''T'' ''b'' alternative_config = None"
  by (simp add: alternative_config_def alternative_match_def table_match_def no_config_def
      partitioner_def group_def)

text \<open>
  C1, amended. With \<^verbatim>\<open>partition_regex\<close> configured, when the regex matches the key and
  the group \<^verbatim>\<open>match_group_id\<close> (1 when not configured) exists, the partitioner returns
  the text of the group as it is when the group took part in the match, and \<^verbatim>\<open>None\<close>
  when it did not; it returns the reading of the clock followed by \<^verbatim>\<open>__unmatched\<close> when
  the regex does not match, and the reading of the clock followed by
  \<^verbatim>\<open>__no_match_group\<close> when the regex matches and there is no such group. Without
  \<^verbatim>\<open>partition_regex\<close>, a key that starts with the configured prefix loses it, and any
  other key is returned as it is.
\<close>

theorem partitioner_cases:
  "(cfg_partition_regex asset_config = Some rx \<and> re_match rx key = Some m
      \<and> 0 \<le> (case cfg_match_group_id asset_config of None \<Rightarrow> 1 | Some i \<Rightarrow> i)
      \<and> (case cfg_match_group_id asset_config of None \<Rightarrow> 1 | Some i \<Rightarrow> i) < int (length m)
      \<and> m ! nat (case cfg_match_group_id asset_config of None \<Rightarrow> 1 | Some i \<Rightarrow> i) = Some group_text
     \<longrightarrow> partitioner re_match now key asset_config = Some group_text)
   \<and> (cfg_partition_regex asset_config = Some rx \<and> re_match rx key = Some m
      \<and> 0 \<le> (case cfg_match_group_id asset_config of None \<Rightarrow> 1 | Some i \<Rightarrow> i)
      \<and> (case cfg_match_group_id asset_config of None \<Rightarrow> 1 | Some i \<Rightarrow> i) < int (length m)
      \<and> m ! nat (case cfg_match_group_id asset_config of None \<Rightarrow> 1 | Some i \<Rightarrow> i) = None
     \<longrightarrow> partitioner re_match now key asset_config = None)
   \<and> (cfg_partition_regex asset_config = Some rx \<and> re_match rx key = None
     \<longrightarrow> partitioner re_match now key asset_config = Some (now @ ''__unmatched''))
   \<and> (cfg_partition_regex asset_config = Some rx \<and> re_match rx key = Some m
      \<and> \<not> (0 \<le> (case cfg_match_group_id asset_config of None \<Rightarrow> 1 | Some i \<Rightarrow> i)
           \<and> (case cfg_match_group_id asset_config of None \<Rightarrow> 1 | Some i \<Rightarrow> i) < int (length m))
     \<longrightarrow> partitioner re_match now key asset_config = Some (now @ ''__no_match_group''))
   \<and> (cfg_partition_regex asset_config = None \<and> cfg_prefix asset_config = Some p
     \<longrightarrow> partitioner re_match now (p @ rest) asset_config = Some rest)
   \<and> (cfg_partition_regex asset_config = None \<and> cfg_prefix asset_config = Some p \<and> \<not> prefix p key
     \<longrightarrow> partitioner re_match now key asset_config = Some key)
   \<and> (cfg_partition_regex asset_config = None \<and> cfg_prefix asset_config = None
     \<longrightarrow> partitioner re_match now key asset_config = Some key)"
  by (auto simp: partitioner_def group_def Let_def split: option.splits)

theorem partitioner_cases_witness:
  "partitioner year_match ''T'' ''2020/a.csv'' (no_config\<lparr>cfg_partition_regex := Some ''([0-9]+)/''\<rparr>)
     = Some ''2020''
   \<and> partitioner alternative_match ''T'' ''b'' alternative_config = None
   \<and> partitioner year_match ''T'' ''logs/x.csv'' (no_config\<lparr>cfg_partition_regex := Some ''([0-9]+)/''\<rparr>)
     = Some ''T__unmatched''
   \<and> partitioner year_match ''T'' ''2020/a.csv''
       (no_config\<lparr>cfg_partition_regex := Some ''([0-9]+)/'', cfg_match_group_id := Some 2\<rparr>)
     = Some ''T__no_match_group''
   \<and> partitioner year_match ''T'' (''logs/'' @ ''2020.csv'') (no_config\<lparr>cfg_prefix := Some ''logs/''\<rparr>)
     = Some ''2020.csv''
   \<and> partitioner year_match ''T'' ''data/2020.csv'' (no_config\<lparr>cfg_prefix := Some ''logs/''\<rparr>)
     = Some ''data/2020.csv''
   \<and> partitioner year_match ''T'' ''data/2020.csv'' no_config = Some ''data/2020.csv''"
proof -
  note A = partitioner_cases [where asset_config = "no_config\<lparr>cfg_partition_regex := Some ''([0-9]+)/''\<rparr>"
      and rx = "''([0-9]+)/''" and re_match = year_match and key = "''2020/a.csv''"
      and m = "[Some ''2020/'', Some ''2020'']" and now = "''T''" and group_text = "''2020''"
      and p = "[]" and rest = "[]"]
  note B = partitioner_cases [where asset_config = alternative_config
      and rx = "''(a)|(b)''" and re_match = alternative_match and key = "''b''"
      and m = "[Some ''b'', None, Some ''b'']" and now = "''T''" and group_text = "[]"
      and p = "[]" and rest = "[]"]
  note C = partitioner_cases [where asset_config = "no_config\<lparr>cfg_partition_regex := Some ''([0-9]+)/''\<rparr>"
      and rx = "''([0-9]+)/''" and re_match = year_match and key = "''logs/x.csv''"
      and m = "[]" and now = "''T''" and group_text = "[]" and p = "[]" and rest = "[]"]
  note D = partitioner_cases [where asset_config
        = "no_config\<lparr>cfg_partition_regex := Some ''([0-9]+)/'', cfg_match_group_id := Some 2\<rparr>"
      and rx = "''([0-9]+)/''" and re_match = year_match and key = "''2020/a.csv''"
      and m = "[Some ''2020/'', Some ''2020'']" and now = "''T''" and group_text = "[]"
      and p = "[]" and rest = "[]"]
  note E = partitioner_cases [where asset_config = "no_config\<lparr>cfg_prefix := Some ''logs/''\<rparr>"
      and p = "''logs/''" and rest = "''2020.csv''" and re_match = year_match and now = "''T''"
      and key = "''data/2020.csv''" and rx = "[]" and m = "[]" and group_text = "[]"]
  note F = partitioner_cases [where asset_config = "no_config" and re_match = year_match
      and now = "''T''" and key = "''data/2020.csv''" and rx = "[]" and m = "[]" and group_text = "[]"
      and p = "[]" and rest = "[]"]
  have 1: "partitioner year_match ''T'' ''2020/a.csv'' (no_config\<lparr>cfg_partition_regex := Some ''([0-9]+)/''\<rparr>)
     = Some ''2020''"
    using A by (simp add: no_config_def year_match_def table_match_def)
  have 2: "partitioner alternative_match ''T'' ''b'' alternative_config = None"
    using B by (simp add: alternative_config_def alternative_match_def no_config_def table_match_def)
  have 3: "partitioner year_match ''T'' ''logs/x.csv'' (no_config\<lparr>cfg_partition_regex := Some ''([0-9]+)/''\<rparr>)
     = Some ''T__unmatched''"
    using C by (simp add: no_config_def year_match_def table_match_def)
  have 4: "partitioner year_match ''T'' ''2020/a.csv''
       (no_config\<lparr>cfg_partition_regex := Some ''([0-9]+)/'', cfg_match_group_id := Some 2\<rparr>)
     = Some ''T__no_match_group''"
    using D by (simp add: no_config_def year_match_def table_match_def)
  have 5: "partitioner year_match ''T'' (''logs/'' @ ''2020.csv'') (no_config\<lparr>cfg_prefix := Some ''logs/''\<rparr>)
     = Some ''2020.csv''"
    "partitioner year_match ''T'' ''data/2020.csv'' (no_config\<lparr>cfg_prefix := Some ''logs/''\<rparr>)
     = Some ''data/2020.csv''"
    using E by (simp_all add: no_config_def)
  have 6: "partitioner year_match ''T'' ''data/2020.csv'' no_config = Some ''data/2020.csv''"
    using F by (simp add: no_config_def)
  from 1 2 3 4 5 6 show ?thesis by simp
qed

subsection \<open>The reader options of the batch kwargs\<close>

lemma build_heap:
  "snd (build_batch_kwargs_from_key self h key asset_config rm ro lim) =
     h(reader_options self := h (reader_options self)
         ++ (case cfg_reader_options asset_config of None \<Rightarrow> Map.empty | Some m \<Rightarrow> m)
         ++ (case ro of None \<Rightarrow> Map.empty | Some m \<Rightarrow> m))"
  by (auto simp: build_batch_kwargs_from_key_def update_at_def Let_def split: option.splits)

lemma build_ref:
  "bk_reader_options (fst (build_batch_kwargs_from_key self h key asset_config rm ro lim))
     = Some (reader_options self)"
  by (auto simp: build_batch_kwargs_from_key_def Let_def split: option.splits)

text \<open>
  When the batch kwargs of a key are returned, the dictionary they refer to holds what the
  dictionary of the connector held at the call, updated with the reader options of the
  asset and then with the reader options of the call.
\<close>

lemma reader_options_when_returned:
  "reader_options_of (snd (build_batch_kwargs_from_key self h key asset_config rm ro lim))
     (fst (build_batch_kwargs_from_key self h key asset_config rm ro lim))
     = h (reader_options self)
         ++ (case cfg_reader_options asset_config of None \<Rightarrow> Map.empty | Some m \<Rightarrow> m)
         ++ (case ro of None \<Rightarrow> Map.empty | Some m \<Rightarrow> m)"
  by (simp add: reader_options_of_def build_heap build_ref)

text \<open>
  C4. The claim fails on the code: the merge is made in the reader options dictionary of
  the connector itself, so it starts from what earlier calls left there. The connector is
  configured with \<^verbatim>\<open>{"sep": ","}\<close>. The batch kwargs built for the asset with
  \<^verbatim>\<open>{"sep": "~"}\<close> and no options of the call have \<^verbatim>\<open>"sep"\<close> at \<^verbatim>\<open>"~"\<close>, as
  claimed. The batch kwargs built after them for the asset without reader options, with an
  empty dictionary for the call, have \<^verbatim>\<open>"sep"\<close> at \<^verbatim>\<open>"~"\<close>, where the merge of
  \<^verbatim>\<open>{"sep": ","}\<close>, nothing and \<^verbatim>\<open>{}\<close> has \<^verbatim>\<open>","\<close>. And the batch kwargs returned
  first have \<^verbatim>\<open>"sep"\<close> at \<^verbatim>\<open>"|"\<close> once a later call has brought \<^verbatim>\<open>{"sep": "|"}\<close>.
\<close>

theorem reader_options_merge_from_shared_dictionary:
  "comma_heap (reader_options comma_connector) = [''sep'' \<mapsto> '','']
   \<and> cfg_reader_options tilde_config = Some [''sep'' \<mapsto> ''~'']
   \<and> cfg_reader_options plain_config = None
   \<and> reader_options_of
        (snd (build_batch_kwargs_from_key comma_connector comma_heap ''k'' tilde_config None None None))
        (fst (build_batch_kwargs_from_key comma_connector comma_heap ''k'' tilde_config None None None))
        ''sep'' = Some ''~''
   \<and> reader_options_of
        (snd (build_batch_kwargs_from_key comma_connector
                (snd (build_batch_kwargs_from_key comma_connector comma_heap ''k'' tilde_config None None None))
                ''k2'' plain_config None (Some Map.empty) None))
        (fst (build_batch_kwargs_from_key comma_connector
                (snd (build_batch_kwargs_from_key comma_connector comma_heap ''k'' tilde_config None None None))
                ''k2'' plain_config None (Some Map.empty) None))
        ''sep'' = Some ''~''
   \<and> ([''sep'' \<mapsto> '',''] ++ Map.empty ++ Map.empty) ''sep'' = Some '',''
   \<and> reader_options_of
        (snd (build_batch_kwargs_from_key comma_connector
                (snd (build_batch_kwargs_from_key comma_connector comma_heap ''k'' tilde_config None None None))
                ''k2'' plain_config None (Some [''sep'' \<mapsto> ''|'']) None))
        (fst (build_batch_kwargs_from_key comma_connector comma_heap ''k'' tilde_config None None None))
        ''sep'' = Some ''|''"
  by (simp add: reader_options_of_def build_heap build_ref comma_connector_def comma_heap_def
      tilde_config_def plain_config_def no_config_def)

text \<open>
  C10. The claim fails on the code: the batch kwargs refer to the reader options
  dictionary of the connector itself, and the updates are made on it. A connector with
  \<^verbatim>\<open>{"sep": ","}\<close> holds \<^verbatim>\<open>{"sep": "~"}\<close> after batch kwargs were built for an asset
  with \<^verbatim>\<open>{"sep": "~"}\<close>, and batch kwargs built afterwards for an asset without reader
  options have \<^verbatim>\<open>"sep"\<close> at \<^verbatim>\<open>"~"\<close>.
\<close>

theorem reader_options_of_connector_changed:
  "comma_heap (reader_options comma_connector) = [''sep'' \<mapsto> '','']
   \<and> snd (build_batch_kwargs_from_key comma_connector comma_heap ''k'' tilde_config None None None)
        (reader_options comma_connector) = [''sep'' \<mapsto> ''~'']
   \<and> bk_reader_options
        (fst (build_batch_kwargs_from_key comma_connector comma_heap ''k'' tilde_config None None None))
       = Some (reader_options comma_connector)
   \<and> snd (build_batch_kwargs_from_key comma_connector
            (snd (build_batch_kwargs_from_key comma_connector comma_heap ''k'' tilde_config None None None))
            ''k2'' plain_config None None None)
        (reader_options comma_connector) ''sep'' = Some ''~''"
  by (simp add: build_heap build_ref comma_connector_def comma_heap_def tilde_config_def
      plain_config_def no_config_def)

subsection \<open>The loop over the keys of a listing\<close>

text \<open>The loop, one step of the generator at a time.\<close>

lemma for_key_in_yielding:
  "for_key_in (get_asset_options_step re s3 self cfg) body (Yielding (k # ks) resp, it) s =
     (case body k s of
        Inl e \<Rightarrow> Some (s, Some e, (Yielding ks resp, it))
      | Inr s' \<Rightarrow> for_key_in (get_asset_options_step re s3 self cfg) body (Yielding ks resp, it) s')"
  by (subst for_key_in.simps) simp

lemma for_key_in_finished:
  "for_key_in step body (Finished, it) s = Some (s, None, (Finished, it))"
  by (subst for_key_in.simps) simp

lemma for_key_in_raised:
  "for_key_in step body (Raised e, it) s = Some (s, Some e, (Raised e, it))"
  by (subst for_key_in.simps) simp

lemma for_key_in_request:
  "for_key_in (get_asset_options_step re s3 self cfg) body (Request, it) s =
     (case response_keys cfg (s3 (query_options_of self cfg it)) of
        Inl e \<Rightarrow> Some (s, Some e, (Raised e, it))
      | Inr keys \<Rightarrow>
          for_key_in (get_asset_options_step re s3 self cfg) body
            (Yielding (regex_filter_keys re cfg keys) (s3 (query_options_of self cfg it)), it) s)"
  by (subst for_key_in.simps) (simp add: Let_def for_key_in_raised split: sum.splits)

lemma for_key_in_after_page:
  "for_key_in (get_asset_options_step re s3 self cfg) body (Yielding [] resp, it) s =
     (if IsTruncated resp then
        (case NextContinuationToken resp of
           None \<Rightarrow> Some (s, Some (KeyError ''NextContinuationToken''), (Raised (KeyError ''NextContinuationToken''), it))
         | Some t \<Rightarrow>
             for_key_in (get_asset_options_step re s3 self cfg) body
               (Request, it\<lparr>continuation_token := Some t\<rparr>) s)
      else Some (s, None, (Finished, it\<lparr>continuation_token := None\<rparr>)))"
  by (subst for_key_in.simps) (simp add: for_key_in_raised for_key_in_finished split: option.splits)

text \<open>The rules that run a listing on a given store.\<close>

lemmas eval_listing = for_key_in_request for_key_in_yielding for_key_in_after_page
  for_key_in_finished for_key_in_raised response_keys_def regex_filter_keys_def
  query_options_of_def

lemma collect_yielding:
  "for_key_in (get_asset_options_step re s3 self cfg) (\<lambda>key keys. Inr (keys @ [key]))
      (Yielding ks resp, it) acc =
   for_key_in (get_asset_options_step re s3 self cfg) (\<lambda>key keys. Inr (keys @ [key]))
      (Yielding [] resp, it) (acc @ ks)"
  by (induction ks arbitrary: acc) (simp_all add: for_key_in_yielding)

lemma collect_request:
  "response_keys cfg (s3 (query_options_of self cfg it)) = Inr keys \<Longrightarrow>
   for_key_in (get_asset_options_step re s3 self cfg) (\<lambda>key keys. Inr (keys @ [key])) (Request, it) acc =
   for_key_in (get_asset_options_step re s3 self cfg) (\<lambda>key keys. Inr (keys @ [key]))
      (Yielding [] (s3 (query_options_of self cfg it)), it) (acc @ regex_filter_keys re cfg keys)"
  by (simp add: for_key_in_request) (rule collect_yielding)

text \<open>
  When the generator, consumed to its end, yields the keys \<open>ks\<close>, a loop whose body does
  not raise runs its body on \<open>ks\<close> in that order, and leaves the generator where the
  listing ends.
\<close>

lemma for_key_in_total_body:
  assumes "for_key_in step (\<lambda>key keys. Inr (keys @ [key])) g acc = Some (acc', raised, gf)"
    and "\<And>k s. I s \<Longrightarrow> body k s = Inr (f k s) \<and> I (f k s)"
    and "I s"
  shows "\<exists>ks. acc' = acc @ ks \<and> for_key_in step body g s = Some (fold f ks s, raised, gf)"
proof -
  have "c = (\<lambda>key keys. Inr (keys @ [key])) \<longrightarrow>
        (\<forall>s. I s \<longrightarrow> (\<exists>ks. fst y = acc @ ks \<and> for_key_in step body g s = Some (fold f ks s, snd y)))"
    if "for_key_in step c g acc = Some y" for c y
    using that
  proof (induction step c g acc y rule: for_key_in.raw_induct[rotated 1, consumes 1])
    case (1 rec step c g acc y)
    show ?case
    proof (intro impI allI)
      fix s assume c: "c = (\<lambda>key keys. Inr (keys @ [key]))" and s: "I s"
      show "\<exists>ks. fst y = acc @ ks \<and> for_key_in step body g s = Some (fold f ks s, snd y)"
      proof (cases "fst g")
        case Finished
        with 1(2) show ?thesis by (subst for_key_in.simps) auto
      next
        case (Raised e)
        with 1(2) show ?thesis by (subst for_key_in.simps) auto
      next
        case Request
        obtain out g' where st: "step g = (out, g')" by (cases "step g")
        show ?thesis
        proof (cases out)
          case None
          with 1(2) Request st have "rec step c g' acc = Some y" by simp
          from 1(1)[OF this] c s obtain ks where "fst y = acc @ ks"
            "for_key_in step body g' s = Some (fold f ks s, snd y)" by blast
          with Request st None show ?thesis by (subst for_key_in.simps) auto
        next
          case (Some k)
          with 1(2) Request st c have "rec step c g' (acc @ [k]) = Some y" by simp
          from 1(1)[OF this] c assms(2)[OF s, of k] obtain ks where "fst y = (acc @ [k]) @ ks"
            "for_key_in step body g' (f k s) = Some (fold f ks (f k s), snd y)" by blast
          with Request st Some assms(2)[OF s, of k] show ?thesis
            by (subst for_key_in.simps) (auto intro: exI[of _ "k # ks"])
        qed
      next
        case (Yielding x y')
        obtain out g' where st: "step g = (out, g')" by (cases "step g")
        show ?thesis
        proof (cases out)
          case None
          with 1(2) Yielding st have "rec step c g' acc = Some y" by simp
          from 1(1)[OF this] c s obtain ks where "fst y = acc @ ks"
            "for_key_in step body g' s = Some (fold f ks s, snd y)" by blast
          with Yielding st None show ?thesis by (subst for_key_in.simps) auto
        next
          case (Some k)
          with 1(2) Yielding st c have "rec step c g' (acc @ [k]) = Some y" by simp
          from 1(1)[OF this] c assms(2)[OF s, of k] obtain ks where "fst y = (acc @ [k]) @ ks"
            "for_key_in step body g' (f k s) = Some (fold f ks (f k s), snd y)" by blast
          with Yielding st Some assms(2)[OF s, of k] show ?thesis
            by (subst for_key_in.simps) (auto intro: exI[of _ "k # ks"])
        qed
      qed
    qed
  qed
  from this[OF assms(1)] assms(3) show ?thesis by auto
qed

text \<open>The listing of a pass of well-shaped pages.\<close>

lemma collect_pages:
  "pass_pages s3 self cfg it ps \<Longrightarrow> \<forall>p \<in> set ps. well_shaped cfg p \<Longrightarrow>
   for_key_in (get_asset_options_step re s3 self cfg) (\<lambda>key keys. Inr (keys @ [key])) (Request, it) acc
     = Some (acc @ concat (map (page_keys re cfg) ps), None, (Finished, it\<lparr>continuation_token := None\<rparr>))"
proof (induction ps arbitrary: it acc)
  case Nil
  then show ?case by simp
next
  case (Cons p ps)
  from Cons.prems(2) have "well_shaped cfg p" by simp
  then obtain keys where keys: "response_keys cfg p = Inr keys"
    by (auto simp: well_shaped_def response_keys_def split: if_splits)
  from Cons.prems(1) have p: "s3 (query_options_of self cfg it) = p" by simp
  have pk: "page_keys re cfg p = regex_filter_keys re cfg keys"
    using keys by (simp add: page_keys_def)
  have start: "for_key_in (get_asset_options_step re s3 self cfg) (\<lambda>key keys. Inr (keys @ [key])) (Request, it) acc
    = for_key_in (get_asset_options_step re s3 self cfg) (\<lambda>key keys. Inr (keys @ [key]))
        (Yielding [] p, it) (acc @ page_keys re cfg p)"
    using collect_request[of cfg s3 self it keys re acc] keys p pk by simp
  show ?case
  proof (cases "ps = []")
    case True
    with Cons.prems(1) have "\<not> IsTruncated p" by simp
    with True show ?thesis
      unfolding start by (simp add: for_key_in_after_page)
  next
    case False
    with Cons.prems(1) obtain t where t: "IsTruncated p" "NextContinuationToken p = Some t"
      "pass_pages s3 self cfg (it\<lparr>continuation_token := Some t\<rparr>) ps"
      by (auto split: option.splits)
    from Cons.prems(2) have ws: "\<forall>p \<in> set ps. well_shaped cfg p" by simp
    show ?thesis
      unfolding start using Cons.IH[OF t(3) ws, of "acc @ page_keys re cfg p"] t(1,2)
      by (simp add: for_key_in_after_page)
  qed
qed

text \<open>A generator that has returned has deleted the token.\<close>

lemma step_finished_no_token:
  "get_asset_options_step re s3 self cfg g = (out, g') \<Longrightarrow>
   (fst g = Finished \<longrightarrow> continuation_token (snd g) = None) \<Longrightarrow>
   (fst g' = Finished \<longrightarrow> continuation_token (snd g') = None)"
  by (cases "(re, s3, self, cfg, g)" rule: get_asset_options_step.cases)
     (auto simp: Let_def split: sum.splits if_splits option.splits)

lemma for_key_in_finished_no_token:
  assumes "for_key_in step body g s = Some y"
    and "step = get_asset_options_step re s3 self cfg"
    and "fst g = Finished \<longrightarrow> continuation_token (snd g) = None"
  shows "fst (snd (snd y)) = Finished \<longrightarrow> continuation_token (snd (snd (snd y))) = None"
  using assms
proof (induction step body g s y rule: for_key_in.raw_induct[rotated 1, consumes 1])
  case (1 rec step body g s y)
  obtain out g' where st: "step g = (out, g')" by (cases "step g")
  with 1(3,4) have inv: "fst g' = Finished \<longrightarrow> continuation_token (snd g') = None"
    using step_finished_no_token by blast
  have IH: "rec step body g' s' = Some y \<Longrightarrow> ?case" for s'
    using 1(1)[of step body g' s' y, OF _ 1(3) inv] by simp
  show ?case
  proof (cases "fst g = Finished \<or> (\<exists>e. fst g = Raised e)")
    case True
    with 1(2,4) show ?thesis by auto
  next
    case False
    then have "(case fst g of Finished \<Rightarrow> Some (s, None, g) | Raised e \<Rightarrow> Some (s, Some e, g)
        | _ \<Rightarrow> (case step g of (None, g') \<Rightarrow> rec step body g' s
            | (Some key, g') \<Rightarrow> (case body key s of Inl e \<Rightarrow> Some (s, Some e, g')
                | Inr s' \<Rightarrow> rec step body g' s')))
      = (case out of None \<Rightarrow> rec step body g' s
         | Some key \<Rightarrow> (case body key s of Inl e \<Rightarrow> Some (s, Some e, g')
                | Inr s' \<Rightarrow> rec step body g' s'))"
      using st by (cases "fst g") auto
    with 1(2) have "rec step body g' s = Some y
        \<or> (\<exists>s'. rec step body g' s' = Some y) \<or> (\<exists>e. y = (s, Some e, g'))"
      by (auto split: option.splits sum.splits)
    with IH inv show ?thesis by auto
  qed
qed

subsection \<open>Pagination\<close>



subsection \<open>The continuation token of the iterator dictionary\<close>

text \<open>
  C3, as stated, fails on the code: the generator yields the keys of a page before it
  touches the iterator dictionary. With the two-page store and an iterator dictionary
  without a token, the generator that has yielded the key a is suspended between two
  listing calls; the most recent response is truncated, and the iterator dictionary has
  no continuation token.
\<close>

theorem token_absent_while_yielding:
  "get_asset_options_step literal_match two_page_store comma_connector plain_config (Request, no_token)
     = (None, (Yielding [''a'', ''b''] first_page, no_token))
   \<and> get_asset_options_step literal_match two_page_store comma_connector plain_config
       (Yielding [''a'', ''b''] first_page, no_token)
     = (Some ''a'', (Yielding [''b''] first_page, no_token))
   \<and> IsTruncated first_page
   \<and> continuation_token no_token = None"
  by (simp add: two_page_store_def first_page_def no_token_def plain_config_def no_config_def
      query_options_of_def response_keys_def regex_filter_keys_def literal_match_def)

text \<open>
  C3, amended. The iterator dictionary is changed only by the step that follows the last
  yield of a page: that step stores the next token of the response when the response is
  truncated, and deletes the token when it is not, which ends the pass; a pass that has
  ended leaves the dictionary without a token. The request of a page and the yields of
  its keys leave the dictionary as it is.
\<close>

theorem continuation_token_updates:
  "(get_asset_options_step re_match store self asset_config (Request, it) = (out, (p, it'))
     \<longrightarrow> it' = it)
   \<and> (get_asset_options_step re_match store self asset_config
         (Yielding (key # keys) asset_options, it) = (out, (p, it'))
     \<longrightarrow> it' = it)
   \<and> (get_asset_options_step re_match store self asset_config
         (Yielding [] asset_options, it) = (out, (p, it'))
       \<and> IsTruncated asset_options \<and> NextContinuationToken asset_options = Some t
     \<longrightarrow> p = Request \<and> continuation_token it' = Some t)
   \<and> (get_asset_options_step re_match store self asset_config
         (Yielding [] asset_options, it) = (out, (p, it'))
       \<and> \<not> IsTruncated asset_options
     \<longrightarrow> p = Finished \<and> continuation_token it' = None)
   \<and> (get_asset_options re_match store self asset_config it = Some (all_keys, raised, (Finished, it''))
     \<longrightarrow> continuation_token it'' = None)"
proof -
  have "continuation_token it'' = None"
    if "get_asset_options re_match store self asset_config it = Some (all_keys, raised, (Finished, it''))"
    using for_key_in_finished_no_token[OF that[unfolded get_asset_options_def] refl] by simp
  then show ?thesis
    by (auto simp: Let_def split: sum.splits)
qed

theorem continuation_token_updates_witness:
  "get_asset_options_step literal_match two_page_store comma_connector plain_config (Request, no_token)
     = (None, (Yielding [''a'', ''b''] first_page, no_token))
   \<and> get_asset_options_step literal_match two_page_store comma_connector plain_config
       (Yielding (''a'' # [''b'']) first_page, no_token)
     = (Some ''a'', (Yielding [''b''] first_page, no_token))
   \<and> get_asset_options_step literal_match two_page_store comma_connector plain_config
       (Yielding [] first_page, no_token)
     = (None, (Request, \<lparr>continuation_token = Some ''t1''\<rparr>))
   \<and> IsTruncated first_page \<and> NextContinuationToken first_page = Some ''t1''
   \<and> get_asset_options_step literal_match two_page_store comma_connector plain_config
       (Yielding [] second_page, \<lparr>continuation_token = Some ''t1''\<rparr>)
     = (None, (Finished, no_token))
   \<and> \<not> IsTruncated second_page
   \<and> get_asset_options literal_match two_page_store comma_connector plain_config no_token
     = Some ([''a'', ''b'', ''c''], None, (Finished, no_token))
   \<and> continuation_token no_token = None"
proof -
  have a: "get_asset_options_step literal_match two_page_store comma_connector plain_config (Request, no_token)
     = (None, (Yielding [''a'', ''b''] first_page, no_token))"
    by (simp add: two_page_store_def first_page_def no_token_def plain_config_def no_config_def
        query_options_of_def response_keys_def regex_filter_keys_def literal_match_def)
  have b: "get_asset_options_step literal_match two_page_store comma_connector plain_config
       (Yielding (''a'' # [''b'']) first_page, no_token)
     = (Some ''a'', (Yielding [''b''] first_page, no_token))"
    by simp
  have c: "get_asset_options_step literal_match two_page_store comma_connector plain_config
       (Yielding [] first_page, no_token)
     = (None, (Request, \<lparr>continuation_token = Some ''t1''\<rparr>))"
    by (simp add: first_page_def no_token_def)
  have d: "IsTruncated first_page" "NextContinuationToken first_page = Some ''t1''"
    by (simp_all add: first_page_def)
  have e: "get_asset_options_step literal_match two_page_store comma_connector plain_config
       (Yielding [] second_page, \<lparr>continuation_token = Some ''t1''\<rparr>)
     = (None, (Finished, no_token))"
    by (simp add: second_page_def no_token_def)
  have f: "\<not> IsTruncated second_page"
    by (simp add: second_page_def)
  have g: "get_asset_options literal_match two_page_store comma_connector plain_config no_token
     = Some ([''a'', ''b'', ''c''], None, (Finished, no_token))"
    by (simp add: get_asset_options_def eval_listing two_page_store_def first_page_def second_page_def
        no_token_def plain_config_def no_config_def literal_match_def)
  have h: "continuation_token no_token = None"
    using g continuation_token_updates [where re_match = literal_match and store = two_page_store
      and self = comma_connector and asset_config = plain_config
      and key = "''a''" and keys = "[''b'']" and t = "''t1''"
      and all_keys = "[''a'', ''b'', ''c'']" and raised = None and it'' = no_token and it = no_token
      and out = None and p = Finished and it' = no_token and asset_options = second_page]
    by blast
  have "no_token = no_token"
    using a continuation_token_updates [where re_match = literal_match and store = two_page_store
      and self = comma_connector and asset_config = plain_config
      and key = "''a''" and keys = "[''b'']" and t = "''t1''"
      and all_keys = "[''a'', ''b'', ''c'']" and raised = None and it'' = no_token and it = no_token
      and out = None and p = "Yielding [''a'', ''b''] first_page" and it' = no_token
      and asset_options = first_page]
    by blast
  moreover have "no_token = no_token"
    using b continuation_token_updates [where re_match = literal_match and store = two_page_store
      and self = comma_connector and asset_config = plain_config
      and key = "''a''" and keys = "[''b'']" and t = "''t1''"
      and all_keys = "[''a'', ''b'', ''c'']" and raised = None and it'' = no_token and it = no_token
      and out = "Some ''a''" and p = "Yielding [''b''] first_page" and it' = no_token
      and asset_options = first_page]
    by blast
  moreover have "continuation_token \<lparr>continuation_token = Some ''t1''\<rparr> = Some ''t1''"
    using c d continuation_token_updates [where re_match = literal_match and store = two_page_store
      and self = comma_connector and asset_config = plain_config
      and key = "''a''" and keys = "[''b'']" and t = "''t1''"
      and all_keys = "[''a'', ''b'', ''c'']" and raised = None and it'' = no_token and it = no_token
      and out = None and p = Request and it' = "\<lparr>continuation_token = Some ''t1''\<rparr>"
      and asset_options = first_page]
    by blast
  moreover have "continuation_token no_token = None"
    using e f continuation_token_updates [where re_match = literal_match and store = two_page_store
      and self = comma_connector and asset_config = plain_config
      and key = "''a''" and keys = "[''b'']" and t = "''t1''"
      and all_keys = "[''a'', ''b'', ''c'']" and raised = None and it'' = no_token
      and it = "\<lparr>continuation_token = Some ''t1''\<rparr>"
      and out = None and p = Finished and it' = no_token and asset_options = second_page]
    by blast
  ultimately show ?thesis using a b c d e f g h by simp
qed

subsection \<open>The shape of a response\<close>

text \<open>The listing of one response.\<close>

lemma get_asset_options_one_page:
  "response_keys cfg (store (query_options_of self cfg it)) = Inr keys \<Longrightarrow>
   \<not> IsTruncated (store (query_options_of self cfg it)) \<Longrightarrow>
   get_asset_options re store self cfg it
     = Some (regex_filter_keys re cfg keys, None, (Finished, it\<lparr>continuation_token := None\<rparr>))"
  unfolding get_asset_options_def
  by (simp add: collect_request for_key_in_after_page)

lemma get_asset_options_raises:
  "response_keys cfg (store (query_options_of self cfg it)) = Inl e \<Longrightarrow>
   get_asset_options re store self cfg it = Some ([], Some e, (Raised e, it))"
  unfolding get_asset_options_def
  by (simp add: for_key_in_request)

text \<open>
  C7, as stated, fails on the code: the common prefixes pass through the regex filter of
  the asset like all keys. For a directory asset whose regex filter is \<^verbatim>\<open>y\<close>, the
  response with the common prefixes \<^verbatim>\<open>x/\<close> and \<^verbatim>\<open>y/\<close> yields \<^verbatim>\<open>y/\<close> only.
\<close>

theorem common_prefixes_filtered:
  "get_asset_options literal_match (\<lambda>q. prefixes_page) comma_connector y_directory_config no_token
     = Some ([''y/''], None, (Finished, no_token))
   \<and> cfg_directory_assets y_directory_config = Some True
   \<and> CommonPrefixes prefixes_page = Some [''x/'', ''y/'']"
  by (simp add: get_asset_options_def eval_listing prefixes_page_def y_directory_config_def
      no_config_def no_token_def literal_match_def)

text \<open>
  C7, amended. For a directory asset, a response without common prefixes makes the listing
  raise the error that carries the asset configuration and the contents of the response,
  and a response with common prefixes makes the generator yield exactly those of them
  that the regex filter of the asset matches, in their order: both \<^verbatim>\<open>x/\<close> and
  \<^verbatim>\<open>y/\<close> when the filter matches both. For any other asset, a response without contents
  makes the listing raise the error that carries the asset configuration and the common
  prefixes of the response.
\<close>

theorem listing_shape:
  "(cfg_directory_assets asset_config = Some True
      \<and> CommonPrefixes (store (query_options_of self asset_config it)) = None
     \<longrightarrow> get_asset_options re_match store self asset_config it
         = Some ([], Some (CommonPrefixesMissing asset_config
                            (Contents (store (query_options_of self asset_config it)))),
                 (Raised (CommonPrefixesMissing asset_config
                            (Contents (store (query_options_of self asset_config it)))), it)))
   \<and> (cfg_directory_assets asset_config = Some True
      \<and> CommonPrefixes (store (query_options_of self asset_config it)) = Some common_prefixes
     \<longrightarrow> get_asset_options_step re_match store self asset_config (Request, it)
         = (None, (Yielding (filter (\<lambda>x. re_match (case cfg_regex_filter asset_config of None \<Rightarrow> ''.*'' | Some r \<Rightarrow> r) x \<noteq> None) common_prefixes)
                     (store (query_options_of self asset_config it)), it)))
   \<and> (cfg_directory_assets asset_config = Some True
      \<and> CommonPrefixes (store (query_options_of self asset_config it)) = Some common_prefixes
      \<and> \<not> IsTruncated (store (query_options_of self asset_config it))
     \<longrightarrow> get_asset_options re_match store self asset_config it
         = Some (filter (\<lambda>x. re_match (case cfg_regex_filter asset_config of None \<Rightarrow> ''.*'' | Some r \<Rightarrow> r) x \<noteq> None) common_prefixes, None,
                 (Finished, it\<lparr>continuation_token := None\<rparr>)))
   \<and> (cfg_directory_assets asset_config = Some True
      \<and> CommonPrefixes (store (query_options_of self asset_config it)) = Some [''x/'', ''y/'']
      \<and> \<not> IsTruncated (store (query_options_of self asset_config it))
      \<and> re_match (case cfg_regex_filter asset_config of None \<Rightarrow> ''.*'' | Some r \<Rightarrow> r) ''x/'' \<noteq> None
      \<and> re_match (case cfg_regex_filter asset_config of None \<Rightarrow> ''.*'' | Some r \<Rightarrow> r) ''y/'' \<noteq> None
     \<longrightarrow> get_asset_options re_match store self asset_config it
         = Some ([''x/'', ''y/''], None, (Finished, it\<lparr>continuation_token := None\<rparr>)))
   \<and> (cfg_directory_assets asset_config \<noteq> Some True
      \<and> Contents (store (query_options_of self asset_config it)) = None
     \<longrightarrow> get_asset_options re_match store self asset_config it
         = Some ([], Some (ContentsMissing asset_config
                            (CommonPrefixes (store (query_options_of self asset_config it)))),
                 (Raised (ContentsMissing asset_config
                            (CommonPrefixes (store (query_options_of self asset_config it)))), it)))"
proof -
  have 1: "response_keys asset_config (store (query_options_of self asset_config it))
        = Inl (CommonPrefixesMissing asset_config (Contents (store (query_options_of self asset_config it))))"
    if "cfg_directory_assets asset_config = Some True"
      "CommonPrefixes (store (query_options_of self asset_config it)) = None"
    using that by (simp add: response_keys_def)
  have 2: "response_keys asset_config (store (query_options_of self asset_config it)) = Inr ps"
    if "cfg_directory_assets asset_config = Some True"
      "CommonPrefixes (store (query_options_of self asset_config it)) = Some ps" for ps
    using that by (simp add: response_keys_def)
  have 3: "response_keys asset_config (store (query_options_of self asset_config it))
        = Inl (ContentsMissing asset_config (CommonPrefixes (store (query_options_of self asset_config it))))"
    if "cfg_directory_assets asset_config \<noteq> Some True"
      "Contents (store (query_options_of self asset_config it)) = None"
    using that by (simp add: response_keys_def)
  show ?thesis
    using 1 2 3
      get_asset_options_raises[where store = store and self = self and cfg = asset_config
        and it = it and re = re_match]
      get_asset_options_one_page[where store = store and self = self and cfg = asset_config
        and it = it and re = re_match]
    by (auto simp: regex_filter_keys_def)
qed

theorem listing_shape_witness:
  "get_asset_options literal_match (\<lambda>q. bare_page) comma_connector directory_config no_token
     = Some ([], Some (CommonPrefixesMissing directory_config None),
             (Raised (CommonPrefixesMissing directory_config None), no_token))
   \<and> get_asset_options_step literal_match (\<lambda>q. prefixes_page) comma_connector directory_config
       (Request, no_token)
     = (None, (Yielding [''x/'', ''y/''] prefixes_page, no_token))
   \<and> get_asset_options literal_match (\<lambda>q. prefixes_page) comma_connector directory_config no_token
     = Some ([''x/'', ''y/''], None, (Finished, no_token))
   \<and> get_asset_options literal_match (\<lambda>q. prefixes_page) comma_connector y_directory_config no_token
     = Some ([''y/''], None, (Finished, no_token))
   \<and> get_asset_options literal_match (\<lambda>q. bare_page) comma_connector plain_config no_token
     = Some ([], Some (ContentsMissing plain_config None),
             (Raised (ContentsMissing plain_config None), no_token))"
proof -
  have d: "cfg_directory_assets directory_config = Some True"
    "cfg_directory_assets y_directory_config = Some True"
    "cfg_directory_assets plain_config \<noteq> Some True"
    by (simp_all add: directory_config_def y_directory_config_def plain_config_def no_config_def)
  have b: "CommonPrefixes bare_page = None" "Contents bare_page = None"
    by (simp_all add: bare_page_def)
  have p: "CommonPrefixes prefixes_page = Some [''x/'', ''y/'']" "\<not> IsTruncated prefixes_page"
    by (simp_all add: prefixes_page_def)
  have m: "literal_match (case cfg_regex_filter directory_config of None \<Rightarrow> ''.*'' | Some r \<Rightarrow> r) ''x/'' \<noteq> None"
    "literal_match (case cfg_regex_filter directory_config of None \<Rightarrow> ''.*'' | Some r \<Rightarrow> r) ''y/'' \<noteq> None"
    by (simp_all add: directory_config_def no_config_def literal_match_def)
  have my: "filter (\<lambda>x. literal_match
        (case cfg_regex_filter y_directory_config of None \<Rightarrow> ''.*'' | Some r \<Rightarrow> r) x \<noteq> None)
      [''x/'', ''y/''] = [''y/'']"
    by (simp add: y_directory_config_def no_config_def literal_match_def)
  have n: "no_token\<lparr>continuation_token := None\<rparr> = no_token"
    by (simp add: no_token_def)
  note A = listing_shape [where asset_config = directory_config and store = "\<lambda>q. bare_page"
      and self = comma_connector and it = no_token and re_match = literal_match
      and common_prefixes = "[]"]
  note B = listing_shape [where asset_config = directory_config and store = "\<lambda>q. prefixes_page"
      and self = comma_connector and it = no_token and re_match = literal_match
      and common_prefixes = "[''x/'', ''y/'']"]
  note Y = listing_shape [where asset_config = y_directory_config and store = "\<lambda>q. prefixes_page"
      and self = comma_connector and it = no_token and re_match = literal_match
      and common_prefixes = "[''x/'', ''y/'']"]
  note C = listing_shape [where asset_config = plain_config and store = "\<lambda>q. bare_page"
      and self = comma_connector and it = no_token and re_match = literal_match
      and common_prefixes = "[]"]
  from A d b have 1: "get_asset_options literal_match (\<lambda>q. bare_page) comma_connector directory_config no_token
     = Some ([], Some (CommonPrefixesMissing directory_config None),
             (Raised (CommonPrefixesMissing directory_config None), no_token))"
    by simp
  from B d p m have 2: "get_asset_options_step literal_match (\<lambda>q. prefixes_page) comma_connector directory_config
       (Request, no_token)
     = (None, (Yielding [''x/'', ''y/''] prefixes_page, no_token))"
    by simp
  from B d p m n have 3: "get_asset_options literal_match (\<lambda>q. prefixes_page) comma_connector directory_config no_token
     = Some ([''x/'', ''y/''], None, (Finished, no_token))"
    by simp
  from Y d p n have 5: "get_asset_options literal_match (\<lambda>q. prefixes_page) comma_connector y_directory_config no_token
     = Some ([''y/''], None, (Finished, no_token))"
    unfolding my by simp
  from C d b have 4: "get_asset_options literal_match (\<lambda>q. bare_page) comma_connector plain_config no_token
     = Some ([], Some (ContentsMissing plain_config None),
             (Raised (ContentsMissing plain_config None), no_token))"
    by simp
  from 1 2 3 4 5 show ?thesis by simp
qed

subsection \<open>Entries of size 0\<close>

lemma build_s3:
  "bk_s3 (fst (build_batch_kwargs_from_key self h key asset_config rm ro lim))
     = Some (''s3a://'' @ bucket self @ ''/'' @ key)"
  by (auto simp: build_batch_kwargs_from_key_def Let_def split: option.splits)

lemma iterator_fold_keys:
  "b \<in> set (fst (fold (\<lambda>key s. case s of (bs, h) \<Rightarrow>
        (case build_batch_kwargs_from_key self h key cfg None ro lim of (b, h') \<Rightarrow> (bs @ [b], h')))
      ks (bs0, h0))) \<Longrightarrow>
   b \<in> set bs0 \<or> (\<exists>k \<in> set ks. bk_s3 b = Some (''s3a://'' @ bucket self @ ''/'' @ k))"
proof (induction ks arbitrary: bs0 h0)
  case Nil
  then show ?case by simp
next
  case (Cons k ks)
  obtain b1 h1 where b1: "build_batch_kwargs_from_key self h0 k cfg None ro lim = (b1, h1)"
    by (cases "build_batch_kwargs_from_key self h0 k cfg None ro lim")
  with Cons.prems have "b \<in> set (fst (fold (\<lambda>key s. case s of (bs, h) \<Rightarrow>
        (case build_batch_kwargs_from_key self h key cfg None ro lim of (b, h') \<Rightarrow> (bs @ [b], h')))
      ks (bs0 @ [b1], h1)))" by simp
  from Cons.IH[OF this] have "b \<in> set bs0 \<or> b = b1
      \<or> (\<exists>k \<in> set ks. bk_s3 b = Some (''s3a://'' @ bucket self @ ''/'' @ k))" by auto
  moreover have "bk_s3 b1 = Some (''s3a://'' @ bucket self @ ''/'' @ k)"
    using build_s3[of self h0 k cfg None ro lim] b1 by simp
  ultimately show ?case by auto
qed

lemma build_asset_iterator_fold:
  assumes "get_asset_options re store self cfg it = Some (keys, raised, g)"
  shows "build_asset_iterator re store self h cfg it rm ro lim
    = Some (fold (\<lambda>key s. case s of (bs, h) \<Rightarrow>
        (case build_batch_kwargs_from_key self h key cfg None ro lim of (b, h') \<Rightarrow> (bs @ [b], h')))
      keys ([], h), raised, g)"
proof -
  have "\<exists>ks. keys = [] @ ks \<and>
      for_key_in (get_asset_options_step re store self cfg)
        (\<lambda>key (bs, h). case build_batch_kwargs_from_key self h key cfg None ro lim of
           (b, h') \<Rightarrow> Inr (bs @ [b], h')) (Request, it) ([], h)
      = Some (fold (\<lambda>key s. case s of (bs, h) \<Rightarrow>
        (case build_batch_kwargs_from_key self h key cfg None ro lim of (b, h') \<Rightarrow> (bs @ [b], h')))
         ks ([], h), raised, g)"
    by (rule for_key_in_total_body[where I = "\<lambda>s. True", OF assms[unfolded get_asset_options_def]])
       (auto split: prod.splits)
  then show ?thesis by (simp add: build_asset_iterator_def)
qed

lemma file_page_keys:
  assumes "cfg_directory_assets cfg \<noteq> Some True" and "key \<in> set (page_keys re cfg p)"
  shows "\<exists>item \<in> set (case Contents p of None \<Rightarrow> [] | Some items \<Rightarrow> items).
           0 < Size item \<and> key = Key item"
  using assms
  by (auto simp: page_keys_def response_keys_def regex_filter_keys_def split: option.splits)

text \<open>
  C8. For an asset that is not a directory asset, the keys that the generator yields from
  a response are the keys of the entries of positive size, filtered by the regex filter
  afterwards: every yielded key is the key of an entry whose size is positive. Over a
  whole pass, every batch kwargs dictionary that the asset iterator builds is built from
  the key of an entry of positive size of one of the pages. The contents with the key a of
  size 0 and the key b of size 10 yield nothing but b (b itself when the filter matches it).
\<close>

theorem zero_size_dropped:
  "(cfg_directory_assets asset_config \<noteq> Some True
      \<and> Contents (store (query_options_of self asset_config it)) = Some items
     \<longrightarrow> get_asset_options_step re_match store self asset_config (Request, it)
           = (None, (Yielding (regex_filter_keys re_match asset_config
                                (map Key (filter (\<lambda>item. 0 < Size item) items)))
                       (store (query_options_of self asset_config it)), it))
         \<and> (\<forall>key \<in> set (regex_filter_keys re_match asset_config
                            (map Key (filter (\<lambda>item. 0 < Size item) items))).
               \<exists>item \<in> set items. Key item = key \<and> 0 < Size item))
   \<and> (cfg_directory_assets asset_config \<noteq> Some True
      \<and> pass_pages store self asset_config it ps \<and> (\<forall>p \<in> set ps. well_shaped asset_config p)
     \<longrightarrow> (\<exists>bs h'. build_asset_iterator re_match store self h asset_config it rm ro lim
                    = Some ((bs, h'), None, (Finished, it\<lparr>continuation_token := None\<rparr>))
           \<and> (\<forall>b \<in> set bs. \<exists>p \<in> set ps.
                 \<exists>item \<in> set (case Contents p of None \<Rightarrow> [] | Some items \<Rightarrow> items).
                   0 < Size item \<and> bk_s3 b = Some (''s3a://'' @ bucket self @ ''/'' @ Key item))))
   \<and> (cfg_directory_assets asset_config \<noteq> Some True
     \<longrightarrow> get_asset_options re_match (\<lambda>q. sizes_page) self asset_config it
         = Some (regex_filter_keys re_match asset_config [''b''], None,
                 (Finished, it\<lparr>continuation_token := None\<rparr>)))"
proof (intro conjI impI)
  assume a: "cfg_directory_assets asset_config \<noteq> Some True
      \<and> Contents (store (query_options_of self asset_config it)) = Some items"
  then show "get_asset_options_step re_match store self asset_config (Request, it)
           = (None, (Yielding (regex_filter_keys re_match asset_config
                                (map Key (filter (\<lambda>item. 0 < Size item) items)))
                       (store (query_options_of self asset_config it)), it))"
    by (simp add: response_keys_def)
  show "\<forall>key \<in> set (regex_filter_keys re_match asset_config
                            (map Key (filter (\<lambda>item. 0 < Size item) items))).
               \<exists>item \<in> set items. Key item = key \<and> 0 < Size item"
    by (auto simp: regex_filter_keys_def)
next
  assume a: "cfg_directory_assets asset_config \<noteq> Some True
      \<and> pass_pages store self asset_config it ps \<and> (\<forall>p \<in> set ps. well_shaped asset_config p)"
  then have "get_asset_options re_match store self asset_config it
     = Some (concat (map (page_keys re_match asset_config) ps), None,
             (Finished, it\<lparr>continuation_token := None\<rparr>))"
    unfolding get_asset_options_def using collect_pages[of store self asset_config it ps re_match "[]"]
    by simp
  from build_asset_iterator_fold[OF this, of h rm ro lim]
  obtain bs h' where r: "build_asset_iterator re_match store self h asset_config it rm ro lim
      = Some ((bs, h'), None, (Finished, it\<lparr>continuation_token := None\<rparr>))"
    and bs: "bs = fst (fold (\<lambda>key s. case s of (bs, h) \<Rightarrow>
        (case build_batch_kwargs_from_key self h key asset_config None ro lim of (b, h') \<Rightarrow> (bs @ [b], h')))
      (concat (map (page_keys re_match asset_config) ps)) ([], h))"
    by (metis prod.collapse)
  have "\<exists>p \<in> set ps. \<exists>item \<in> set (case Contents p of None \<Rightarrow> [] | Some items \<Rightarrow> items).
          0 < Size item \<and> bk_s3 b = Some (''s3a://'' @ bucket self @ ''/'' @ Key item)"
    if "b \<in> set bs" for b
  proof -
    from iterator_fold_keys[OF that[unfolded bs]]
    obtain k where k: "k \<in> set (concat (map (page_keys re_match asset_config) ps))"
      "bk_s3 b = Some (''s3a://'' @ bucket self @ ''/'' @ k)" by auto
    then obtain p where p: "p \<in> set ps" "k \<in> set (page_keys re_match asset_config p)" by auto
    from file_page_keys[OF _ p(2)] a k(2) p(1) show ?thesis by blast
  qed
  with r show "\<exists>bs h'. build_asset_iterator re_match store self h asset_config it rm ro lim
                    = Some ((bs, h'), None, (Finished, it\<lparr>continuation_token := None\<rparr>))
           \<and> (\<forall>b \<in> set bs. \<exists>p \<in> set ps.
                 \<exists>item \<in> set (case Contents p of None \<Rightarrow> [] | Some items \<Rightarrow> items).
                   0 < Size item \<and> bk_s3 b = Some (''s3a://'' @ bucket self @ ''/'' @ Key item))"
    by blast
next
  assume "cfg_directory_assets asset_config \<noteq> Some True"
  then have "response_keys asset_config sizes_page = Inr [''b'']"
    by (simp add: response_keys_def sizes_page_def)
  from get_asset_options_one_page[where store = "\<lambda>q. sizes_page" and cfg = asset_config
      and keys = "[''b'']" and self = self and it = it and re = re_match] this
  show "get_asset_options re_match (\<lambda>q. sizes_page) self asset_config it
         = Some (regex_filter_keys re_match asset_config [''b''], None,
                 (Finished, it\<lparr>continuation_token := None\<rparr>))"
    by (simp add: sizes_page_def)
qed

theorem zero_size_dropped_witness:
  "cfg_directory_assets plain_config \<noteq> Some True
   \<and> Contents ((\<lambda>q. sizes_page) (query_options_of comma_connector plain_config no_token))
       = Some [\<lparr>Key = ''a'', Size = 0\<rparr>, \<lparr>Key = ''b'', Size = 10\<rparr>]
   \<and> pass_pages (\<lambda>q. sizes_page) comma_connector plain_config no_token [sizes_page]
   \<and> well_shaped plain_config sizes_page
   \<and> get_asset_options_step literal_match (\<lambda>q. sizes_page) comma_connector plain_config (Request, no_token)
       = (None, (Yielding [''b''] sizes_page, no_token))
   \<and> get_asset_options literal_match (\<lambda>q. sizes_page) comma_connector plain_config no_token
       = Some ([''b''], None, (Finished, no_token))
   \<and> (\<exists>bs h'. build_asset_iterator literal_match (\<lambda>q. sizes_page) comma_connector comma_heap
                  plain_config no_token None None None
                = Some ((bs, h'), None, (Finished, no_token))
        \<and> (\<forall>b \<in> set bs. bk_s3 b = Some ''s3a://b/b''))"
proof -
  have d: "cfg_directory_assets plain_config \<noteq> Some True"
    by (simp add: plain_config_def no_config_def)
  have c: "Contents ((\<lambda>q. sizes_page) (query_options_of comma_connector plain_config no_token))
       = Some [\<lparr>Key = ''a'', Size = 0\<rparr>, \<lparr>Key = ''b'', Size = 10\<rparr>]"
    by (simp add: sizes_page_def)
  have pp: "pass_pages (\<lambda>q. sizes_page) comma_connector plain_config no_token [sizes_page]"
    by (simp add: sizes_page_def)
  have ws: "\<forall>p \<in> set [sizes_page]. well_shaped plain_config p"
    by (simp add: well_shaped_def plain_config_def no_config_def sizes_page_def)
  have f: "regex_filter_keys literal_match plain_config
      (map Key (filter (\<lambda>item. 0 < Size item) [\<lparr>Key = ''a'', Size = 0\<rparr>, \<lparr>Key = ''b'', Size = 10\<rparr>])) = [''b'']"
    "regex_filter_keys literal_match plain_config [''b''] = [''b'']"
    by (simp_all add: regex_filter_keys_def literal_match_def plain_config_def no_config_def)
  have n: "no_token\<lparr>continuation_token := None\<rparr> = no_token"
    by (simp add: no_token_def)
  note T = zero_size_dropped [where asset_config = plain_config and store = "\<lambda>q. sizes_page"
      and self = comma_connector and it = no_token and re_match = literal_match
      and items = "[\<lparr>Key = ''a'', Size = 0\<rparr>, \<lparr>Key = ''b'', Size = 10\<rparr>]"
      and ps = "[sizes_page]" and h = comma_heap and rm = None and ro = None and lim = None]
  from T d c f have 1: "get_asset_options_step literal_match (\<lambda>q. sizes_page) comma_connector plain_config (Request, no_token)
       = (None, (Yielding [''b''] sizes_page, no_token))"
    by simp
  from T d f n have 2: "get_asset_options literal_match (\<lambda>q. sizes_page) comma_connector plain_config no_token
       = Some ([''b''], None, (Finished, no_token))"
    by simp
  from T d pp ws n obtain bs h' where 3:
    "build_asset_iterator literal_match (\<lambda>q. sizes_page) comma_connector comma_heap
                  plain_config no_token None None None
                = Some ((bs, h'), None, (Finished, no_token))"
    "\<forall>b \<in> set bs. \<exists>item \<in> set (case Contents sizes_page of None \<Rightarrow> [] | Some items \<Rightarrow> items).
                   0 < Size item \<and> bk_s3 b = Some (''s3a://'' @ bucket comma_connector @ ''/'' @ Key item)"
    by auto
  from 3(2) have "\<forall>b \<in> set bs. bk_s3 b = Some ''s3a://b/b''"
    by (auto simp: sizes_page_def comma_connector_def)
  with 3(1) d c pp ws 1 2 show ?thesis by auto
qed

subsection \<open>The scan for a partition id\<close>

text \<open>
  The loop of \<^verbatim>\<open>_build_batch_kwargs\<close> when the execution engine has returned a
  dictionary: its body does not raise, and the loop runs over all keys of the listing.
\<close>

lemma build_limit:
  "bk_limit (fst (build_batch_kwargs_from_key self h key cfg rm ro lim))
     = (case lim of None \<Rightarrow> None | Some l \<Rightarrow> if l \<noteq> 0 then Some l else None)"
  by (auto simp: build_batch_kwargs_from_key_def Let_def split: option.splits)

lemma build_fst_cong:
  "(case lim of None \<Rightarrow> None | Some l \<Rightarrow> if l \<noteq> 0 then Some l else None)
     = (case lim' of None \<Rightarrow> None | Some l \<Rightarrow> if l \<noteq> (0::int) then Some l else None) \<Longrightarrow>
   fst (build_batch_kwargs_from_key self h key cfg rm ro lim)
     = fst (build_batch_kwargs_from_key self h' key cfg rm ro lim')"
  by (auto simp: build_batch_kwargs_from_key_def Let_def split: option.splits if_splits)

lemma partition_body_some:
  "partition_body re now self cfg pid ro key (i, Some b, h)
     = Inr (partition_step re now self cfg pid ro key (i, Some b, h))"
  by (auto simp: partition_step_def partition_body_def split: prod.splits)

lemma partition_step_match:
  "partitioner re (now i) key cfg = Some pid \<Longrightarrow>
   partition_step re now self cfg pid ro key (i, Some b, h)
     = (Suc i, Some (fst (build_batch_kwargs_from_key self h key cfg None ro (bk_limit b))),
        snd (build_batch_kwargs_from_key self h key cfg None ro (bk_limit b)))"
  by (auto simp: partition_step_def partition_body_def split: prod.splits)

lemma partition_step_other:
  "partitioner re (now i) key cfg \<noteq> Some pid \<Longrightarrow>
   partition_step re now self cfg pid ro key (i, bk, h) = (Suc i, bk, h)"
  by (auto simp: partition_step_def partition_body_def)

lemma fold_partition_step_other:
  "\<forall>j < length ks. partitioner re (now (i + j)) (ks ! j) cfg \<noteq> Some pid \<Longrightarrow>
   fold (partition_step re now self cfg pid ro) ks (i, bk, h) = (i + length ks, bk, h)"
proof (induction ks arbitrary: i)
  case Nil
  then show ?case by simp
next
  case (Cons k ks)
  from Cons.prems have k: "partitioner re (now i) k cfg \<noteq> Some pid" by fastforce
  from Cons.prems have "\<forall>j < length ks. partitioner re (now (Suc i + j)) (ks ! j) cfg \<noteq> Some pid"
    by fastforce
  from Cons.IH[OF this] k show ?case by (simp add: partition_step_other)
qed

lemma fold_partition_step_some:
  "\<exists>b' h'. fold (partition_step re now self cfg pid ro) ks (i, Some b, h) = (i + length ks, Some b', h')
     \<and> (case bk_limit b' of None \<Rightarrow> None | Some l \<Rightarrow> if l \<noteq> 0 then Some l else None)
       = (case bk_limit b of None \<Rightarrow> None | Some l \<Rightarrow> if l \<noteq> 0 then Some l else None)"
proof (induction ks arbitrary: i b h)
  case Nil
  then show ?case by simp
next
  case (Cons k ks)
  show ?case
  proof (cases "partitioner re (now i) k cfg = Some pid")
    case True
    from Cons.IH[of "Suc i" "fst (build_batch_kwargs_from_key self h k cfg None ro (bk_limit b))"
        "snd (build_batch_kwargs_from_key self h k cfg None ro (bk_limit b))"]
    show ?thesis using True
      by (auto simp: partition_step_match build_limit split: option.splits if_splits)
  next
    case False
    from Cons.IH[of "Suc i" b h] show ?thesis using False
      by (simp add: partition_step_other)
  qed
qed

lemma scan_fold:
  assumes "get_asset_options re store self cfg it = Some (keys, raised, g)"
  shows "for_key_in (get_asset_options_step re store self cfg)
           (partition_body re now self cfg pid ro) (Request, it) (0, Some b0, h)
         = Some (fold (partition_step re now self cfg pid ro) keys (0, Some b0, h), raised, g)"
proof -
  have body: "partition_body re now self cfg pid ro k s = Inr (partition_step re now self cfg pid ro k s)
      \<and> fst (snd (partition_step re now self cfg pid ro k s)) \<noteq> None"
    if "fst (snd s) \<noteq> None" for k s
  proof -
    obtain i bk h where "s = (i, bk, h)" by (cases s)
    with that obtain b where s: "s = (i, Some b, h)" by auto
    show ?thesis unfolding s
      by (cases "partitioner re (now i) k cfg = Some pid")
         (simp_all add: partition_body_some partition_step_match partition_step_other)
  qed
  have "\<exists>ks. keys = [] @ ks \<and>
      for_key_in (get_asset_options_step re store self cfg)
        (partition_body re now self cfg pid ro) (Request, it) (0, Some b0, h)
      = Some (fold (partition_step re now self cfg pid ro) ks (0, Some b0, h), raised, g)"
    by (rule for_key_in_total_body[where I = "\<lambda>s. fst (snd s) \<noteq> None",
          OF assms[unfolded get_asset_options_def]])
       (use body in auto)
  then show ?thesis by simp
qed

lemma fold_partition_step_last:
  assumes "partitioner re (now (length pre)) key cfg = Some pid"
    and "\<forall>j < length post. partitioner re (now (Suc (length pre) + j)) (post ! j) cfg \<noteq> Some pid"
  shows "\<exists>h'. fold (partition_step re now self cfg pid ro) (pre @ key # post) (0, Some b0, h)
    = (Suc (length pre) + length post,
       Some (fst (build_batch_kwargs_from_key self h key cfg None ro (bk_limit b0))), h')"
proof -
  from fold_partition_step_some[of re now self cfg pid ro pre 0 b0 h]
  obtain b1 h1 where 1: "fold (partition_step re now self cfg pid ro) pre (0, Some b0, h)
      = (length pre, Some b1, h1)"
    and lim: "(case bk_limit b1 of None \<Rightarrow> None | Some l \<Rightarrow> if l \<noteq> 0 then Some l else None)
       = (case bk_limit b0 of None \<Rightarrow> None | Some l \<Rightarrow> if l \<noteq> 0 then Some l else None)"
    by auto
  have 2: "partition_step re now self cfg pid ro key (length pre, Some b1, h1)
     = (Suc (length pre), Some (fst (build_batch_kwargs_from_key self h key cfg None ro (bk_limit b0))),
        snd (build_batch_kwargs_from_key self h1 key cfg None ro (bk_limit b1)))"
    using assms(1) build_fst_cong[OF lim, of self h1 key cfg None ro h]
    by (simp add: partition_step_match)
  from fold_partition_step_other[OF assms(2), of self ro]
  show ?thesis by (simp add: 1 2)
qed

text \<open>
  C6. When the asset is registered, the execution engine has returned a dictionary, and
  the listing of the asset ends without an exception after yielding a key that resolves
  to the requested partition id, followed only by keys that do not, the call returns the
  batch kwargs built from that key, whatever the keys before it resolve to: the loop runs
  over the whole listing (the iterator dictionary of the asset is the one at the end of
  the listing), and the last key that resolves to the partition id wins. In the example
  the first two keys of three resolve to the requested id, and the batch kwargs are those
  of the second.
\<close>

theorem last_match_wins:
  assumes "bp_data_asset_name batch_parameters = Some data_asset_name"
    and "bp_partition_id batch_parameters = Some partition_id" and "partition_id \<noteq> []"
    and "assets self data_asset_name = Some asset_config"
    and "engine_batch_kwargs process_batch_definition self h batch_parameters = Some b0"
    and "get_asset_options re_match store self asset_config
           (case iterators self data_asset_name of
              None \<Rightarrow> \<lparr>continuation_token = None\<rparr> | Some i \<Rightarrow> i)
         = Some (pre @ key # post, None, (Finished, it'))"
    and "partitioner re_match (now (length pre)) key asset_config = Some partition_id"
    and "\<forall>j < length post.
           partitioner re_match (now (Suc (length pre) + j)) (post ! j) asset_config \<noteq> Some partition_id"
  shows "\<exists>h'. build_batch_kwargs re_match store now process_batch_definition self h batch_parameters
    = Some (Inr (BatchKwargs
                  (fst (build_batch_kwargs_from_key self h key asset_config None
                          (bp_reader_options batch_parameters) (bk_limit b0)))),
            self\<lparr>iterators := (iterators self)(data_asset_name \<mapsto> it'),
                 last_batch_kwargs :=
                   Some (fst (build_batch_kwargs_from_key self h key asset_config None
                                (bp_reader_options batch_parameters) (bk_limit b0)))\<rparr>,
            h')"
proof -
  from fold_partition_step_last[OF assms(7,8), of self "bp_reader_options batch_parameters" b0 h]
  obtain h' where f: "fold (partition_step re_match now self asset_config partition_id
        (bp_reader_options batch_parameters)) (pre @ key # post) (0, Some b0, h)
    = (Suc (length pre) + length post,
       Some (fst (build_batch_kwargs_from_key self h key asset_config None
                    (bp_reader_options batch_parameters) (bk_limit b0))), h')"
    by auto
  show ?thesis
    using assms(1-5) scan_fold[OF assms(6), of now partition_id "bp_reader_options batch_parameters" b0 h] f
    by (auto simp: build_batch_kwargs_def Let_def)
qed

theorem last_match_wins_witness:
  "partitioner year_match (clock 0) ''2020/a.csv'' year_config = Some ''2020''
   \<and> partitioner year_match (clock (length [''2020/a.csv''])) ''2020/b.csv'' year_config = Some ''2020''
   \<and> get_asset_options year_match (\<lambda>q. year_page) year_connector year_config no_token
       = Some ([''2020/a.csv''] @ ''2020/b.csv'' # [''2021/c.csv''], None, (Finished, no_token))
   \<and> (\<exists>h'. build_batch_kwargs year_match (\<lambda>q. year_page) clock plain_engine year_connector
               (\<lambda>a. Map.empty) (year_request ''2020'')
         = Some (Inr (BatchKwargs \<lparr>bk_s3 = Some ''s3a://b/2020/b.csv'', bk_reader_options = Some 0,
                                    bk_reader_method = Some ''parquet'', bk_limit = None\<rparr>),
                 year_connector\<lparr>iterators := (iterators year_connector)(''logs'' \<mapsto> no_token),
                   last_batch_kwargs :=
                     Some \<lparr>bk_s3 = Some ''s3a://b/2020/b.csv'', bk_reader_options = Some 0,
                           bk_reader_method = Some ''parquet'', bk_limit = None\<rparr>\<rparr>,
                 h'))"
proof -
  have 1: "bp_data_asset_name (year_request ''2020'') = Some ''logs''"
    and 2: "bp_partition_id (year_request ''2020'') = Some ''2020''"
    and 3: "''2020'' \<noteq> []"
    by (simp_all add: year_request_def)
  have 4: "assets year_connector ''logs'' = Some year_config"
    by (simp add: year_connector_def)
  have 5: "engine_batch_kwargs plain_engine year_connector (\<lambda>a. Map.empty) (year_request ''2020'')
      = Some \<lparr>bk_s3 = None, bk_reader_options = None, bk_reader_method = Some ''csv'', bk_limit = None\<rparr>"
    by (simp add: engine_batch_kwargs_def plain_engine_def year_request_def)
  have 6: "get_asset_options year_match (\<lambda>q. year_page) year_connector year_config
           (case iterators year_connector ''logs'' of
              None \<Rightarrow> \<lparr>continuation_token = None\<rparr> | Some i \<Rightarrow> i)
         = Some ([''2020/a.csv''] @ ''2020/b.csv'' # [''2021/c.csv''], None, (Finished, no_token))"
    by (simp add: get_asset_options_def eval_listing year_connector_def year_page_def year_config_def
        no_config_def year_match_def table_match_def no_token_def)
  have 7: "partitioner year_match (clock (length [''2020/a.csv''])) ''2020/b.csv'' year_config = Some ''2020''"
    by (simp add: partitioner_def group_def year_config_def no_config_def year_match_def table_match_def)
  have 8: "\<forall>j < length [''2021/c.csv''].
      partitioner year_match (clock (Suc (length [''2020/a.csv'']) + j)) ([''2021/c.csv''] ! j) year_config
        \<noteq> Some ''2020''"
    by (simp add: partitioner_def group_def year_config_def no_config_def year_match_def table_match_def)
  have 9: "partitioner year_match (clock 0) ''2020/a.csv'' year_config = Some ''2020''"
    by (simp add: partitioner_def group_def year_config_def no_config_def year_match_def table_match_def)
  have 10: "fst (build_batch_kwargs_from_key year_connector (\<lambda>a. Map.empty) ''2020/b.csv'' year_config None
        (bp_reader_options (year_request ''2020''))
        (bk_limit \<lparr>bk_s3 = None, bk_reader_options = None, bk_reader_method = Some ''csv'', bk_limit = None\<rparr>))
      = \<lparr>bk_s3 = Some ''s3a://b/2020/b.csv'', bk_reader_options = Some 0,
         bk_reader_method = Some ''parquet'', bk_limit = None\<rparr>"
    by (simp add: build_batch_kwargs_from_key_def year_connector_def year_config_def no_config_def
        year_request_def)
  have 11: "get_asset_options year_match (\<lambda>q. year_page) year_connector year_config no_token
       = Some ([''2020/a.csv''] @ ''2020/b.csv'' # [''2021/c.csv''], None, (Finished, no_token))"
    using 6 by (simp add: year_connector_def no_token_def)
  from last_match_wins[OF 1 2 3 4 5 6 7 8]
  have "\<exists>h'. build_batch_kwargs year_match (\<lambda>q. year_page) clock plain_engine year_connector
               (\<lambda>a. Map.empty) (year_request ''2020'')
         = Some (Inr (BatchKwargs \<lparr>bk_s3 = Some ''s3a://b/2020/b.csv'', bk_reader_options = Some 0,
                                    bk_reader_method = Some ''parquet'', bk_limit = None\<rparr>),
                 year_connector\<lparr>iterators := (iterators year_connector)(''logs'' \<mapsto> no_token),
                   last_batch_kwargs :=
                     Some \<lparr>bk_s3 = Some ''s3a://b/2020/b.csv'', bk_reader_options = Some 0,
                           bk_reader_method = Some ''parquet'', bk_limit = None\<rparr>\<rparr>,
                 h')"
    unfolding 10 .
  with 7 9 11 show ?thesis by blast
qed

text \<open>
  Without a key that resolves to the requested partition id, the call returns what the
  execution engine returned.
\<close>

lemma no_match_returns_engine_kwargs:
  assumes "bp_data_asset_name batch_parameters = Some data_asset_name"
    and "bp_partition_id batch_parameters = Some partition_id" and "partition_id \<noteq> []"
    and "assets self data_asset_name = Some asset_config"
    and "engine_batch_kwargs process_batch_definition self h batch_parameters = Some b0"
    and "get_asset_options re_match store self asset_config
           (case iterators self data_asset_name of
              None \<Rightarrow> \<lparr>continuation_token = None\<rparr> | Some i \<Rightarrow> i)
         = Some (keys, None, (Finished, it'))"
    and "\<forall>j < length keys. partitioner re_match (now j) (keys ! j) asset_config \<noteq> Some partition_id"
  shows "build_batch_kwargs re_match store now process_batch_definition self h batch_parameters
    = Some (Inr (BatchKwargs b0),
            self\<lparr>iterators := (iterators self)(data_asset_name \<mapsto> it'), last_batch_kwargs := Some b0\<rparr>, h)"
  using assms(1-5) scan_fold[OF assms(6), of now partition_id "bp_reader_options batch_parameters" b0 h]
    fold_partition_step_other[of keys re_match now 0 asset_config partition_id self
      "bp_reader_options batch_parameters" "Some b0" h] assms(7)
  by (auto simp: build_batch_kwargs_def Let_def)

text \<open>The rules that run a request on the connector with the asset \<^verbatim>\<open>logs\<close>.\<close>

lemmas eval_year = eval_listing build_batch_kwargs_def engine_batch_kwargs_def partition_body_def
  partitioner_def group_def build_batch_kwargs_from_key_def update_at_def
  year_match_def table_match_def year_page_def year_config_def no_config_def
  year_connector_def year_request_def plain_engine_def Let_def

text \<open>
  C5. The claim fails on the code: \<^verbatim>\<open>batch_kwargs\<close> starts as the result of
  \<^verbatim>\<open>process_batch_definition\<close>, so the test \<^verbatim>\<open>batch_kwargs is None\<close> after the
  loop fails whenever the engine returned a dictionary. For the partition id \<^verbatim>\<open>1999\<close>,
  to which no key of the asset resolves, the call returns the dictionary of the engine.
  The error is raised only when the engine returns \<^verbatim>\<open>None\<close>, and then a request
  for a partition id that a key resolves to raises an \<^verbatim>\<open>AttributeError\<close>.
\<close>

theorem engine_kwargs_returned_without_match:
  "map_option fst
     (build_batch_kwargs year_match (\<lambda>q. year_page) clock plain_engine year_connector
        (\<lambda>a. Map.empty) (year_request ''1999''))
    = Some (Inr (BatchKwargs \<lparr>bk_s3 = None, bk_reader_options = None,
                               bk_reader_method = Some ''csv'', bk_limit = None\<rparr>))
   \<and> map_option fst
     (build_batch_kwargs year_match (\<lambda>q. year_page) clock (\<lambda>rm ro lim. None) year_connector
        (\<lambda>a. Map.empty) (year_request ''1999''))
    = Some (Inl (UnableToIdentifyPartition ''1999'' ''logs''))
   \<and> map_option fst
     (build_batch_kwargs year_match (\<lambda>q. year_page) clock (\<lambda>rm ro lim. None) year_connector
        (\<lambda>a. Map.empty) (year_request ''2021''))
    = Some (Inl AttributeError)"
  by (simp add: eval_year)

text \<open>
  C9. The claim fails on the code: neither caller hands the reader method of the call to
  \<^verbatim>\<open>_build_batch_kwargs_from_key\<close>. With the reader method \<^verbatim>\<open>parquet\<close> of the
  connector and the reader method \<^verbatim>\<open>csv\<close> of the call, the batch kwargs of a
  partition id and all batch kwargs of the iterator have the reader method
  \<^verbatim>\<open>parquet\<close>.
\<close>

theorem call_reader_method_ignored:
  "bp_reader_method (year_request ''2021'') = Some ''csv''
   \<and> map_option fst
     (build_batch_kwargs year_match (\<lambda>q. year_page) clock plain_engine year_connector
        (\<lambda>a. Map.empty) (year_request ''2021''))
    = Some (Inr (BatchKwargs \<lparr>bk_s3 = Some ''s3a://b/2021/c.csv'', bk_reader_options = Some 0,
                               bk_reader_method = Some ''parquet'', bk_limit = None\<rparr>))
   \<and> map_option fst
     (get_iterator year_match (\<lambda>q. year_page) year_connector (\<lambda>a. Map.empty)
        ''logs'' (Some ''csv'') None None)
    = Some (Inr ([\<lparr>bk_s3 = Some ''s3a://b/2020/a.csv'', bk_reader_options = Some 0,
                     bk_reader_method = Some ''parquet'', bk_limit = None\<rparr>,
                  \<lparr>bk_s3 = Some ''s3a://b/2020/b.csv'', bk_reader_options = Some 0,
                     bk_reader_method = Some ''parquet'', bk_limit = None\<rparr>,
                  \<lparr>bk_s3 = Some ''s3a://b/2021/c.csv'', bk_reader_options = Some 0,
                     bk_reader_method = Some ''parquet'', bk_limit = None\<rparr>], None))"
  by (simp add: eval_year get_iterator_def build_asset_iterator_def)

end
